theory Spec2Isabelle
  imports
    Main
    "HOL-Library.AList"
    "HOL-Library.Multiset"
    "HOL-Library.List_Lexorder"
    "HOL-Library.Char_ord"
begin

section \<open>Library functions on strings\<close>


text \<open>\<open>strings.Join(elems, sep)\<close>.\<close>

fun Join :: "'a list list \<Rightarrow> 'a list \<Rightarrow> 'a list" where
  "Join [] sep = []"
| "Join [x] sep = x"
| "Join (x # y # ys) sep = x @ sep @ Join (y # ys) sep"


text \<open>\<open>strings.HasPrefix(s, prefix)\<close> and \<open>strings.Contains(s, substr)\<close>.\<close>

fun HasPrefix :: "'a list \<Rightarrow> 'a list \<Rightarrow> bool" where
  "HasPrefix s [] = True"
| "HasPrefix [] (p # ps) = False"
| "HasPrefix (c # cs) (p # ps) = (c = p \<and> HasPrefix cs ps)"

fun Contains :: "'a list \<Rightarrow> 'a list \<Rightarrow> bool" where
  "Contains [] substr = (substr = [])"
| "Contains (c # cs) substr = (HasPrefix (c # cs) substr \<or> Contains cs substr)"


section \<open>The name normalizer\<close>









section \<open>Errors, panics and diagnostics\<close>

text \<open>
  An \<open>error\<close> value of the source: the ones it builds with \<open>fmt.Errorf\<close> and
  \<open>errors.New\<close>, and \<open>LibraryError\<close> for one returned by a library call.
\<close>

datatype error =
    LibraryError string
  | CannotUseNonMatcherRule string
  | ErrorDecodingYAML error string
  | ErrorWhileDecodingYAMLObject error
  | UnsupportedMediaType

datatype panic = InterfaceConversion | NilPointerDereference | AssignmentToNilMap

datatype fault = Error error | Panic panic

text \<open>A line written with \<open>log.Printf\<close> or \<open>log.Println\<close>, with the values it formats.\<close>

datatype diagnostic =
    LogDeprecatedRuleType string string string
  | LogInvalidRequestModifier string error
  | LogError error
  | LogRewriteTargetConflict string
  | LogErrWhileReadingYaml error
  | LogSkippedNotAnIngress


section \<open>Constants\<close>

definition separator :: string where
  "separator = ''---''"

definition newline :: string where
  "newline = [CHR 0x0A]"

definition groupSuffix :: string where
  "groupSuffix = ''/v1alpha1''"

definition middlewareSuffix :: string where
  "middlewareSuffix = ''kubernetescrd''"

definition sslMiddlewareRef :: string where
  "sslMiddlewareRef = ''ssl-redirect@file''"

definition ruleTypePath :: string where
  "ruleTypePath = ''Path''"

definition ruleTypePathPrefix :: string where
  "ruleTypePathPrefix = ''PathPrefix''"

definition ruleTypePathStrip :: string where
  "ruleTypePathStrip = ''PathStrip''"

definition ruleTypePathPrefixStrip :: string where
  "ruleTypePathPrefixStrip = ''PathPrefixStrip''"

definition ruleTypeReplacePath :: string where
  "ruleTypeReplacePath = ''ReplacePath''"


section \<open>Resources\<close>

text \<open>
  Modelled from the spec: the types \<open>networking.Ingress\<close> and \<open>v1alpha1.Middleware\<close>
  are declared in libraries. The records hold what the data model of the specification
  names: a routing resource has a namespace, a name, a mapping of string
  annotations and a list of rules, each rule a host and a list of paths; a middleware is
  identified by namespace and name and holds one middleware kind (the type \<open>'spec\<close>).

  In Go the annotations are a \<open>map[string]string\<close>, which may be \<open>nil\<close> (\<open>None\<close>
  here): reading a nil map finds no key, writing to it panics. \<open>rule.HTTP\<close> is a
  pointer, \<open>nil\<close> for a rule with no http section (\<open>None\<close> here).
\<close>

record ObjectMeta =
  Name :: string
  Namespace :: string
  Annotations :: "(string \<rightharpoonup> string) option"

record HTTPIngressPath =
  Path :: string
  PathType :: "string option"

record IngressRule =
  Host :: string
  HTTP :: "HTTPIngressPath list option"

record Ingress = ObjectMeta +
  Rules :: "IngressRule list"

record 'spec Middleware = ObjectMeta +
  Spec :: 'spec

text \<open>
  Modelled from the spec: \<open>getStringValue\<close> is declared in another file of package
  \<open>ingress\<close>; the specification describes it as the lookup-with-default accessor of
  the annotation mapping.
\<close>

definition getStringValue :: "(string \<rightharpoonup> string) option \<Rightarrow> string \<Rightarrow> string \<Rightarrow> string" where
  "getStringValue annotations annotation defaultValue =
     (case annotations of
        None \<Rightarrow> defaultValue
      | Some m \<Rightarrow> (case m annotation of None \<Rightarrow> defaultValue | Some v \<Rightarrow> v))"

text \<open>The assignment \<open>obj.GetAnnotations()[k] = v\<close>.\<close>

definition setAnnotation :: "Ingress \<Rightarrow> string \<Rightarrow> string \<Rightarrow> panic + Ingress" where
  "setAnnotation obj k v =
     (case Annotations obj of
        None \<Rightarrow> Inl AssignmentToNilMap
      | Some m \<Rightarrow> Inr (obj\<lparr>Annotations := Some (m(k \<mapsto> v))\<rparr>))"

text \<open>
  The declarations that \<open>convertIngress\<close> uses from the other files of package
  \<open>ingress\<close>: the annotation keys and the functions that synthesize one middleware
  each. They are parameters; a function that returns a pointer that may be \<open>nil\<close>
  returns an option.
\<close>

record 'spec decls =
  annotationKubernetesIngressClass :: string
  annotationKubernetesFrontendEntryPoints :: string
  annotationKubernetesSSLRedirect :: string
  annotationKubernetesRequestModifier :: string
  annotationKubernetesAppRoot :: string
  annotationKubernetesRuleType :: string
  annotationKubernetesRewriteTarget :: string
  getAuthMiddleware :: "Ingress \<Rightarrow> 'spec Middleware option"
  getHeadersMiddleware :: "Ingress \<Rightarrow> 'spec Middleware option"
  getWhiteList :: "Ingress \<Rightarrow> 'spec Middleware option"
  parseRequestModifier :: "string \<Rightarrow> string \<Rightarrow> string \<Rightarrow> error + 'spec Middleware"
  getFrontendRedirect ::
    "string \<Rightarrow> string \<Rightarrow> (string \<rightharpoonup> string) option \<Rightarrow> 'spec Middleware option"
  getStripPrefix :: "HTTPIngressPath \<Rightarrow> string \<Rightarrow> string \<Rightarrow> 'spec Middleware"
  getReplacePathRegex ::
    "IngressRule \<Rightarrow> HTTPIngressPath \<Rightarrow> string \<Rightarrow> string \<Rightarrow> 'spec Middleware"
  getFrontendRedirectAppRoot ::
    "string \<Rightarrow> string \<Rightarrow> (string \<rightharpoonup> string) option \<Rightarrow> string \<Rightarrow> string
       \<Rightarrow> 'spec Middleware option"


section \<open>The annotation compiler\<close>

definition extractRuleType ::
  "'spec decls \<Rightarrow> (string \<rightharpoonup> string) option \<Rightarrow> diagnostic list \<times> (error + string \<times> bool)" where
  "extractRuleType d annotations =
     (let ruleType = getStringValue annotations (annotationKubernetesRuleType d) ruleTypePathPrefix
      in if ruleType = ruleTypePath \<or> ruleType = ruleTypePathPrefix then
           ([], Inr (ruleType, False))
         else if ruleType = ruleTypePathStrip then
           ([], Inr (ruleTypePath, True))
         else if ruleType = ruleTypePathPrefixStrip then
           ([], Inr (ruleTypePathPrefix, True))
         else if ruleType = ruleTypeReplacePath then
           ([LogDeprecatedRuleType ruleType (annotationKubernetesRuleType d)
               (annotationKubernetesRequestModifier d)],
            Inr (ruleType, False))
         else ([], Inl (CannotUseNonMatcherRule ruleType)))"

text \<open>
  The two slices that \<open>convertIngress\<close> grows: the references, in the order of their
  synthesis, and the middlewares.
\<close>

record 'spec conv =
  middlewareNames :: "string list"
  middlewares :: "'spec Middleware list"

text \<open>\<open>fmt.Sprintf("%s-%s@%s", m.GetNamespace(), m.GetName(), middlewareSuffix)\<close>.\<close>

definition middlewareRef :: "'spec Middleware \<Rightarrow> string" where
  "middlewareRef m = Namespace m @ ''-'' @ Name m @ ''@'' @ middlewareSuffix"

text \<open>The pair of \<open>append\<close> calls that follows each synthesis.\<close>

definition addMiddleware :: "'spec Middleware \<Rightarrow> 'spec conv \<Rightarrow> 'spec conv" where
  "addMiddleware m st =
     st\<lparr>middlewares := middlewares st @ [m],
        middlewareNames := middlewareNames st @ [middlewareRef m]\<rparr>"

definition addOptional :: "'spec Middleware option \<Rightarrow> 'spec conv \<Rightarrow> 'spec conv" where
  "addOptional r st = (case r of None \<Rightarrow> st | Some m \<Rightarrow> addMiddleware m st)"

text \<open>
  From the SSL redirect to the app-root redirect: the part of \<open>convertIngress\<close>
  between the entry points and the rule-type resolution.
\<close>

definition collectAnnotations :: "'spec decls \<Rightarrow> Ingress \<Rightarrow> diagnostic list \<times> 'spec conv" where
  "collectAnnotations d ingress =
     (let sslRedirect = getStringValue (Annotations ingress) (annotationKubernetesSSLRedirect d) [];
          st0 = \<lparr>middlewareNames = (if sslRedirect \<noteq> [] then [sslMiddlewareRef] else []),
                 middlewares = []\<rparr>;
          st1 = addOptional (getAuthMiddleware d ingress) st0;
          st2 = addOptional (getHeadersMiddleware d ingress) st1;
          st3 = addOptional (getWhiteList d ingress) st2;
          requestModifier =
            getStringValue (Annotations ingress) (annotationKubernetesRequestModifier d) [];
          (log, st4) =
            (if requestModifier \<noteq> [] then
               (case parseRequestModifier d (Namespace ingress) requestModifier (Name ingress) of
                  Inl err \<Rightarrow>
                    ([LogInvalidRequestModifier (annotationKubernetesRequestModifier d) err], st3)
                | Inr middleware \<Rightarrow> ([], addMiddleware middleware st3))
             else ([], st3));
          appRoot = getStringValue (Annotations ingress) (annotationKubernetesAppRoot d) [];
          st5 =
            (if appRoot = [] then
               addOptional
                 (getFrontendRedirect d (Namespace ingress) (Name ingress) (Annotations ingress)) st4
             else st4)
      in (log, st5))"

text \<open>How a loop of \<open>convertIngress\<close> ends: it runs on, returns \<open>nil, nil\<close>, or panics.\<close>

datatype 'a loop = Continue 'a | ReturnNil | Panicked panic

text \<open>The inner loop, over the paths of one rule.\<close>

fun convertPaths ::
  "'spec decls \<Rightarrow> Ingress \<Rightarrow> string \<Rightarrow> bool \<Rightarrow> IngressRule \<Rightarrow> HTTPIngressPath list
     \<Rightarrow> 'spec conv \<Rightarrow> 'spec conv loop" where
  "convertPaths d ingress ruleType stripPrefix rule [] st = Continue st"
| "convertPaths d ingress ruleType stripPrefix rule (path # paths) st =
     (let rewriteTarget =
            getStringValue (Annotations ingress) (annotationKubernetesRewriteTarget d) [];
          st1 =
            (if length (Path path) > 0 \<and> stripPrefix then
               addMiddleware
                 (getStripPrefix d path (Host rule @ Path path) (Namespace ingress)) st
             else st)
      in if length (Path path) > 0 \<and> rewriteTarget \<noteq> [] \<and> ruleType = ruleTypeReplacePath then
           ReturnNil
         else
           let st2 =
                 (if length (Path path) > 0 \<and> rewriteTarget \<noteq> [] then
                    addMiddleware
                      (getReplacePathRegex d rule path (Namespace ingress) rewriteTarget) st1
                  else st1);
               st3 =
                 addOptional
                   (getFrontendRedirectAppRoot d (Namespace ingress) (Name ingress)
                      (Annotations ingress) (Host rule @ Path path) (Path path)) st2
           in convertPaths d ingress ruleType stripPrefix rule paths st3)"

text \<open>The outer loop, over the rules; \<open>rule.HTTP.Paths\<close> dereferences \<open>rule.HTTP\<close>.\<close>

fun convertRules ::
  "'spec decls \<Rightarrow> Ingress \<Rightarrow> string \<Rightarrow> bool \<Rightarrow> IngressRule list \<Rightarrow> 'spec conv
     \<Rightarrow> 'spec conv loop" where
  "convertRules d ingress ruleType stripPrefix [] st = Continue st"
| "convertRules d ingress ruleType stripPrefix (rule # rules) st =
     (case HTTP rule of
        None \<Rightarrow> Panicked NilPointerDereference
      | Some paths \<Rightarrow>
          (case convertPaths d ingress ruleType stripPrefix rule paths st of
             Continue st' \<Rightarrow> convertRules d ingress ruleType stripPrefix rules st'
           | ReturnNil \<Rightarrow> ReturnNil
           | Panicked p \<Rightarrow> Panicked p))"

text \<open>
  \<open>convertIngress\<close>. The result is what was logged, and either a panic or the pair
  returned: the rewritten resource (\<open>None\<close> for \<open>nil\<close>) and the middlewares.
  \<open>DeepCopy\<close> is the identity on values. \<open>logUnsupported\<close> only prints to the standard
  output and returns nothing; it is left out. \<open>sort.Slice\<close> with the comparison of the
  names is \<open>sort_key Name\<close>; \<open>sort.Slice\<close> does not promise an order between
  middlewares of equal name, and nothing below depends on that order.
\<close>

definition convertIngress ::
  "'spec decls \<Rightarrow> Ingress
     \<Rightarrow> diagnostic list \<times> (panic + Ingress option \<times> 'spec Middleware list)" where
  "convertIngress d ingress =
     (let newIngress = ingress;
          ingressClass =
            getStringValue (Annotations ingress) (annotationKubernetesIngressClass d) []
      in if length ingressClass > 0 \<and> \<not> Contains ingressClass ''traefik'' then
           ([], Inr (Some newIngress, []))
         else
           let entryPoints =
                 getStringValue (Annotations ingress) (annotationKubernetesFrontendEntryPoints d) []
           in case (if entryPoints \<noteq> [] then
                      setAnnotation newIngress
                        ''traefik.ingress.kubernetes.io/router.entrypoints'' entryPoints
                    else Inr newIngress) of
                Inl p \<Rightarrow> ([], Inl p)
              | Inr newIngress \<Rightarrow>
                  (case collectAnnotations d ingress of
                     (log, st) \<Rightarrow>
                       (case extractRuleType d (Annotations ingress) of
                          (log', Inl err) \<Rightarrow> (log @ log' @ [LogError err], Inr (None, []))
                        | (log', Inr (ruleType, stripPrefix)) \<Rightarrow>
                            (case convertRules d ingress ruleType stripPrefix (Rules ingress) st of
                               Panicked p \<Rightarrow> (log @ log', Inl p)
                             | ReturnNil \<Rightarrow>
                                 (log @ log' @
                                    [LogRewriteTargetConflict (annotationKubernetesRuleType d)],
                                  Inr (None, []))
                             | Continue st' \<Rightarrow>
                                 (case (if length (middlewareNames st') > 0 then
                                          setAnnotation newIngress
                                            ''traefik.ingress.kubernetes.io/router.middlewares''
                                            (Join (middlewareNames st') '','')
                                        else Inr newIngress) of
                                    Inl p \<Rightarrow> (log @ log', Inl p)
                                  | Inr newIngress \<Rightarrow>
                                      (log @ log',
                                       Inr (Some newIngress,
                                            sort_key Name (middlewares st'))))))))"


section \<open>Decoded documents\<close>

text \<open>
  A value of type \<open>interface{}\<close> as the YAML decoder builds it: \<open>nil\<close>, a boolean, a
  number, a string, a \<open>[]interface{}\<close> or a \<open>map[string]interface{}\<close>. A map is an
  association list, read with \<^const>\<open>map_of\<close>; the source never ranges over one. The
  source does not inspect numbers.
\<close>

datatype iface =
    Nil
  | Bool bool
  | Number int
  | String string
  | Slice "iface list"
  | Map "(string \<times> iface) list"

type_synonym Unstructured = "(string \<times> iface) list"

text \<open>
  The accessors of \<open>unstructured.Unstructured\<close> that the source calls.
  \<open>GetAPIVersion\<close> and \<open>GetKind\<close> return the empty string when the field is missing
  or is not a string; \<open>IsList\<close> holds when the field \<open>items\<close> is a slice;
  \<open>NestedSlice\<close> returns an error when the field is there and is not a slice.
\<close>

definition getNestedString :: "Unstructured \<Rightarrow> string \<Rightarrow> string" where
  "getNestedString obj field = (case map_of obj field of Some (String s) \<Rightarrow> s | _ \<Rightarrow> [])"

definition GetAPIVersion :: "Unstructured \<Rightarrow> string" where
  "GetAPIVersion obj = getNestedString obj ''apiVersion''"

definition GetKind :: "Unstructured \<Rightarrow> string" where
  "GetKind obj = getNestedString obj ''kind''"

definition IsList :: "Unstructured \<Rightarrow> bool" where
  "IsList obj = (case map_of obj ''items'' of Some (Slice _) \<Rightarrow> True | _ \<Rightarrow> False)"

definition NestedSlice :: "Unstructured \<Rightarrow> string \<Rightarrow> error + iface list \<times> bool" where
  "NestedSlice obj field =
     (case map_of obj field of
        None \<Rightarrow> Inr ([], False)
      | Some (Slice xs) \<Rightarrow> Inr (xs, True)
      | Some _ \<Rightarrow> Inl (LibraryError ''accessor error''))"

definition SetNestedSlice :: "Unstructured \<Rightarrow> iface list \<Rightarrow> string \<Rightarrow> Unstructured" where
  "SetNestedSlice obj v field = AList.update field (Slice v) obj"


section \<open>The list extractor\<close>

text \<open>The test of \<open>extractItems\<close> on one element.\<close>

definition isIngress :: "Unstructured \<Rightarrow> bool" where
  "isIngress obj \<longleftrightarrow>
     (GetAPIVersion obj = ''extensions/v1beta1'' \<or> GetAPIVersion obj = ''networking.k8s.io/v1'')
     \<and> GetKind obj = ''Ingress''"

text \<open>
  The loop of \<open>extractItems\<close>, with the two slices it appends to. The type assertion
  \<open>elt.(map[string]interface{})\<close> has no second result: it panics on an element that
  is not a map.
\<close>

fun extractItemsLoop ::
  "iface list \<Rightarrow> iface list \<Rightarrow> Unstructured list \<Rightarrow> panic + iface list \<times> Unstructured list" where
  "extractItemsLoop [] toKeep toConvert = Inr (toKeep, toConvert)"
| "extractItemsLoop (elt # items) toKeep toConvert =
     (case elt of
        Map obj \<Rightarrow>
          (if isIngress obj then extractItemsLoop items toKeep (toConvert @ [obj])
           else extractItemsLoop items (toKeep @ [elt]) toConvert)
      | _ \<Rightarrow> Inl InterfaceConversion)"

definition extractItems :: "iface list \<Rightarrow> panic + iface list \<times> Unstructured list" where
  "extractItems items = extractItemsLoop items [] []"

text \<open>\<open>strings.Split(s, sep)\<close> for a separator that is not empty.\<close>

fun cut :: "'a list \<Rightarrow> 'a list \<Rightarrow> 'a list \<Rightarrow> ('a list \<times> 'a list) option" where
  "cut before [] sep = None"
| "cut before (c # cs) sep =
     (if HasPrefix (c # cs) sep then Some (before, drop (length sep) (c # cs))
      else cut (before @ [c]) cs sep)"

function Split :: "'a list \<Rightarrow> 'a list \<Rightarrow> 'a list list" where
  "Split s sep =
     (if sep = [] then map (\<lambda>c. [c]) s
      else case cut [] s sep of
             None \<Rightarrow> [s]
           | Some (before, after) \<Rightarrow> before # Split after sep)"
  by pat_completeness auto
termination
proof (relation "measure (\<lambda>(s, sep). length s)")
  show "wf (measure (\<lambda>(s :: 'a list, sep :: 'a list). length s))"
    by simp
next
  fix s sep :: "'a list" and x2 before after
  assume sep: "sep \<noteq> []" and c: "cut [] s sep = Some x2" and x2: "(before, after) = x2"
  have "cut b s sep = Some (before, after) \<Longrightarrow> length after < length s" for b
    using sep by (induction b s sep rule: cut.induct) (auto split: if_splits)
  with c x2 show "((after, sep), (s, sep)) \<in> measure (\<lambda>(s, sep). length s)"
    by simp
qed

declare Split.simps [simp del]

text \<open>
  The library calls of the file level, as parameters: the YAML codec of
  \<open>sigs.k8s.io/yaml\<close>, the universal deserializer, the protobuf codec of the two
  ingress types, the calls in \<open>encodeYaml\<close>, the group names, and the file system. A
  decoded object is an ingress of the legacy schema (\<open>'ext\<close>), an ingress of the current
  schema, a middleware, or of another kind (\<open>'other\<close>).
\<close>

datatype ('ext, 'other, 'spec) Object =
    ExtensionsIngress 'ext
  | NetworkingIngress Ingress
  | MiddlewareObject "'spec Middleware"
  | OtherObject 'other

record ('ext, 'other, 'spec) lib =
  yamlUnmarshal :: "string \<Rightarrow> error + Unstructured"
  yamlMarshal :: "Unstructured \<Rightarrow> error + string"
  Decode :: "string \<Rightarrow> error + ('ext, 'other, 'spec) Object"
  protoMarshal :: "'ext \<Rightarrow> error + string"
  protoUnmarshal :: "string \<Rightarrow> error + Ingress"
  AddToScheme :: "error option"
  SerializerInfoForMediaType :: bool
  ParseGroupVersion :: "string \<Rightarrow> error + string \<times> string"
  Encode :: "string \<times> string \<Rightarrow> ('ext, 'other, 'spec) Object option \<Rightarrow> error + string"
  networkingGroup :: string
  networkingVersion :: string
  v1alpha1GroupName :: string
  filepathJoin :: "string \<Rightarrow> string \<Rightarrow> string"
  ReadFile :: "string \<Rightarrow> error + string"
  MkdirAll :: "string \<Rightarrow> error option"
  WriteFile :: "string \<Rightarrow> string \<Rightarrow> error option"

definition createUnstructured :: "('ext, 'other, 'spec) lib \<Rightarrow> string \<Rightarrow> error + Unstructured" where
  "createUnstructured l content =
     (case yamlUnmarshal l content of
        Inl err \<Rightarrow> Inl (ErrorDecodingYAML err content)
      | Inr obj \<Rightarrow> Inr obj)"

definition parseYaml ::
  "('ext, 'other, 'spec) lib \<Rightarrow> string \<Rightarrow> error + ('ext, 'other, 'spec) Object" where
  "parseYaml l content =
     (case Decode l content of
        Inl err \<Rightarrow> Inl (ErrorWhileDecodingYAMLObject err)
      | Inr obj \<Rightarrow> Inr obj)"

definition extensionsToNetworking :: "('ext, 'other, 'spec) lib \<Rightarrow> 'ext \<Rightarrow> error + Ingress" where
  "extensionsToNetworking l i =
     (case protoMarshal l i of
        Inl err \<Rightarrow> Inl err
      | Inr data \<Rightarrow> (case protoUnmarshal l data of Inl err \<Rightarrow> Inl err | Inr ni \<Rightarrow> Inr ni))"

definition encodeYaml ::
  "('ext, 'other, 'spec) lib \<Rightarrow> ('ext, 'other, 'spec) Object option \<Rightarrow> string \<Rightarrow> error + string" where
  "encodeYaml l object groupName =
     (case AddToScheme l of
        Some err \<Rightarrow> Inl err
      | None \<Rightarrow>
          if \<not> SerializerInfoForMediaType l then Inl UnsupportedMediaType
          else case ParseGroupVersion l groupName of
                 Inl err \<Rightarrow> Inl err
               | Inr gv \<Rightarrow> (case Encode l gv object of Inl err \<Rightarrow> Inl err | Inr s \<Rightarrow> Inr s))"

text \<open>The last loop of \<open>expandFileContent\<close>: one fragment for each element to convert.\<close>

fun marshalAll ::
  "('ext, 'other, 'spec) lib \<Rightarrow> Unstructured list \<Rightarrow> string list \<Rightarrow> error + string list" where
  "marshalAll l [] fragments = Inr fragments"
| "marshalAll l (elt # toConvert) fragments =
     (case yamlMarshal l elt of
        Inl err \<Rightarrow> Inl err
      | Inr m \<Rightarrow> marshalAll l toConvert (fragments @ [m]))"

text \<open>
  One pass of the loop of \<open>expandFileContent\<close> over a part that is not skipped: the
  fragments after the pass, or the error returned. The source decodes \<open>content\<close>, the
  whole file, in each pass.
\<close>

definition expandPart ::
  "('ext, 'other, 'spec) lib \<Rightarrow> string \<Rightarrow> string \<Rightarrow> string list \<Rightarrow> fault + string list" where
  "expandPart l content part fragments =
     (case createUnstructured l content of
        Inl err \<Rightarrow> Inl (Error err)
      | Inr listObj \<Rightarrow>
          if \<not> IsList listObj then Inr (fragments @ [part])
          else case NestedSlice listObj ''items'' of
                 Inl err \<Rightarrow> Inl (Error err)
               | Inr (items, found) \<Rightarrow>
                   (case extractItems items of
                      Inl p \<Rightarrow> Inl (Panic p)
                    | Inr (toKeep, toConvert) \<Rightarrow>
                        if length items = length toKeep then Inr (fragments @ [part])
                        else case (if length toKeep > 0 then
                                     (case yamlMarshal l (SetNestedSlice listObj toKeep ''items'') of
                                        Inl err \<Rightarrow> Inl err
                                      | Inr m \<Rightarrow> Inr (fragments @ [m]))
                                   else Inr fragments) of
                               Inl err \<Rightarrow> Inl (Error err)
                             | Inr fragments' \<Rightarrow>
                                 (case marshalAll l toConvert fragments' of
                                    Inl err \<Rightarrow> Inl (Error err)
                                  | Inr fragments'' \<Rightarrow> Inr fragments'')))"

fun expandParts ::
  "('ext, 'other, 'spec) lib \<Rightarrow> string \<Rightarrow> string list \<Rightarrow> string list \<Rightarrow> fault + string list" where
  "expandParts l content [] fragments = Inr fragments"
| "expandParts l content (part # parts) fragments =
     (if part = newline \<or> part = [] then expandParts l content parts fragments
      else case expandPart l content part fragments of
             Inl f \<Rightarrow> Inl f
           | Inr fragments' \<Rightarrow> expandParts l content parts fragments')"

definition expandFileContent :: "('ext, 'other, 'spec) lib \<Rightarrow> string \<Rightarrow> fault + string" where
  "expandFileContent l filePath =
     (case ReadFile l filePath of
        Inl err \<Rightarrow> Inl (Error err)
      | Inr content \<Rightarrow>
          (case expandParts l content (Split content separator) [] of
             Inl f \<Rightarrow> Inl f
           | Inr fragments \<Rightarrow> Inr (Join fragments (separator @ newline))))"


section \<open>The conversion of a file\<close>

text \<open>The loop of \<open>convertFile\<close> over the middlewares that \<open>convertIngress\<close> returned.\<close>

fun encodeObjects ::
  "('ext, 'other, 'spec) lib \<Rightarrow> 'spec Middleware list \<Rightarrow> string list \<Rightarrow> error + string list" where
  "encodeObjects l [] fragments = Inr fragments"
| "encodeObjects l (object # objects) fragments =
     (case encodeYaml l (Some (MiddlewareObject object)) (v1alpha1GroupName l @ groupSuffix) of
        Inl err \<Rightarrow> Inl err
      | Inr yml \<Rightarrow> encodeObjects l objects (fragments @ [yml]))"

text \<open>
  The end of a pass of the loop of \<open>convertFile\<close>, for a part that is an ingress:
  the lines logged, and the fragments after the pass or the error returned.
  \<open>newIngress.DeepCopyObject()\<close> of a \<open>nil\<close> ingress is the \<open>nil\<close> object.
\<close>

definition convertAndEncode ::
  "('ext, 'other, 'spec) lib \<Rightarrow> 'spec decls \<Rightarrow> Ingress \<Rightarrow> string list
     \<Rightarrow> diagnostic list \<times> (fault + string list)" where
  "convertAndEncode l d ingress fragments =
     (case convertIngress d ingress of
        (log, Inl p) \<Rightarrow> (log, Inl (Panic p))
      | (log, Inr (newIngress, objects)) \<Rightarrow>
          (case encodeYaml l (map_option NetworkingIngress newIngress)
                  (networkingGroup l @ ''/'' @ networkingVersion l) of
             Inl err \<Rightarrow> (log, Inl (Error err))
           | Inr yml \<Rightarrow>
               (case encodeObjects l objects (fragments @ [yml]) of
                  Inl err \<Rightarrow> (log, Inl (Error err))
                | Inr fragments' \<Rightarrow> (log, Inr fragments'))))"

text \<open>One pass of the loop of \<open>convertFile\<close> over a part that is not skipped.\<close>

definition convertPart ::
  "('ext, 'other, 'spec) lib \<Rightarrow> 'spec decls \<Rightarrow> string \<Rightarrow> string list
     \<Rightarrow> diagnostic list \<times> (fault + string list)" where
  "convertPart l d part fragments =
     (case createUnstructured l part of
        Inl err \<Rightarrow> ([], Inl (Error err))
      | Inr unstruct \<Rightarrow>
          if IsList unstruct then ([], Inr (fragments @ [part]))
          else case parseYaml l part of
                 Inl err \<Rightarrow> ([LogErrWhileReadingYaml err], Inr (fragments @ [part]))
               | Inr object \<Rightarrow>
                   (case object of
                      ExtensionsIngress obj \<Rightarrow>
                        (case extensionsToNetworking l obj of
                           Inl err \<Rightarrow> ([], Inl (Error err))
                         | Inr ingress \<Rightarrow> convertAndEncode l d ingress fragments)
                    | NetworkingIngress obj \<Rightarrow> convertAndEncode l d obj fragments
                    | _ \<Rightarrow> ([LogSkippedNotAnIngress], Inr (fragments @ [part]))))"

fun convertParts ::
  "('ext, 'other, 'spec) lib \<Rightarrow> 'spec decls \<Rightarrow> string list \<Rightarrow> string list \<Rightarrow> diagnostic list
     \<Rightarrow> diagnostic list \<times> (fault + string list)" where
  "convertParts l d [] fragments log = (log, Inr fragments)"
| "convertParts l d (part # parts) fragments log =
     (if part = newline \<or> part = [] then convertParts l d parts fragments log
      else case convertPart l d part fragments of
             (log', Inl f) \<Rightarrow> (log @ log', Inl f)
           | (log', Inr fragments') \<Rightarrow> convertParts l d parts fragments' (log @ log'))"

text \<open>
  \<open>convertFile\<close>: the lines logged, and the error or panic that ended it, or the path
  and the content of the file it wrote.
\<close>

definition convertFile ::
  "('ext, 'other, 'spec) lib \<Rightarrow> 'spec decls \<Rightarrow> string \<Rightarrow> string \<Rightarrow> string
     \<Rightarrow> diagnostic list \<times> (fault + string \<times> string)" where
  "convertFile l d srcDir dstDir filename =
     (case expandFileContent l (filepathJoin l srcDir filename) of
        Inl f \<Rightarrow> ([], Inl f)
      | Inr content \<Rightarrow>
          (case MkdirAll l dstDir of
             Some err \<Rightarrow> ([], Inl (Error err))
           | None \<Rightarrow>
               (case convertParts l d (Split content separator) [] [] of
                  (log, Inl f) \<Rightarrow> (log, Inl f)
                | (log, Inr fragments) \<Rightarrow>
                    (let path = filepathJoin l dstDir filename;
                         out = Join fragments (separator @ newline)
                     in case WriteFile l path out of
                          Some err \<Rightarrow> (log, Inl (Error err))
                        | None \<Rightarrow> (log, Inr (path, out))))))"


section \<open>The words of the specification\<close>

text \<open>
  The definitions of this section are not translated from the source. They say what the
  specification says, and the theorems compare them with the functions above.
\<close>

text \<open>The value of an annotation, when the resource carries it.\<close>

definition annotation :: "(string \<rightharpoonup> string) option \<Rightarrow> string \<Rightarrow> string option" where
  "annotation annotations key = (case annotations of None \<Rightarrow> None | Some m \<Rightarrow> m key)"

text \<open>
  The class gate (step 1): the ingress-class annotation is there, is not empty, and does
  not contain the marker.
\<close>

definition routedElsewhere :: "'spec decls \<Rightarrow> Ingress \<Rightarrow> bool" where
  "routedElsewhere d ingress \<longleftrightarrow>
     (case annotation (Annotations ingress) (annotationKubernetesIngressClass d) of
        None \<Rightarrow> False
      | Some v \<Rightarrow> v \<noteq> [] \<and> \<not> Contains v ''traefik'')"

text \<open>A reference of the form \<open><namespace>-<name>@kubernetescrd\<close>.\<close>

definition HasSuffix :: "'a list \<Rightarrow> 'a list \<Rightarrow> bool" where
  "HasSuffix s suffix = HasPrefix (rev s) (rev suffix)"

definition isCrdReference :: "string \<Rightarrow> bool" where
  "isCrdReference r \<longleftrightarrow>
     HasSuffix r (''@'' @ middlewareSuffix)
     \<and> CHR ''-'' \<in> set (take (length r - length (''@'' @ middlewareSuffix)) r)"

text \<open>
  The order of synthesis, steps 4 to 11 of the annotation compiler. Step 4 adds the
  static reference and no middleware; steps 5 to 9 add at most one middleware each;
  step 11 adds, for each rule and each of its paths in turn, the strip-prefix
  middleware, the replace-path-regex middleware and the app-root redirect.
\<close>

definition staticReferences :: "'spec decls \<Rightarrow> Ingress \<Rightarrow> string list" where
  "staticReferences d ingress =
     (if getStringValue (Annotations ingress) (annotationKubernetesSSLRedirect d) [] \<noteq> []
      then [sslMiddlewareRef] else [])"

definition optional :: "'a option \<Rightarrow> 'a list" where
  "optional r = (case r of None \<Rightarrow> [] | Some m \<Rightarrow> [m])"

definition synthesizedFromAnnotations :: "'spec decls \<Rightarrow> Ingress \<Rightarrow> 'spec Middleware list" where
  "synthesizedFromAnnotations d ingress =
     optional (getAuthMiddleware d ingress)
     @ optional (getHeadersMiddleware d ingress)
     @ optional (getWhiteList d ingress)
     @ (let requestModifier =
              getStringValue (Annotations ingress) (annotationKubernetesRequestModifier d) []
        in if requestModifier = [] then []
           else case parseRequestModifier d (Namespace ingress) requestModifier (Name ingress) of
                  Inl err \<Rightarrow> []
                | Inr middleware \<Rightarrow> [middleware])
     @ (if getStringValue (Annotations ingress) (annotationKubernetesAppRoot d) [] = [] then
          optional (getFrontendRedirect d (Namespace ingress) (Name ingress) (Annotations ingress))
        else [])"

definition synthesizedFromPath ::
  "'spec decls \<Rightarrow> Ingress \<Rightarrow> bool \<Rightarrow> IngressRule \<Rightarrow> HTTPIngressPath \<Rightarrow> 'spec Middleware list" where
  "synthesizedFromPath d ingress stripPrefix rule path =
     (let rewriteTarget =
            getStringValue (Annotations ingress) (annotationKubernetesRewriteTarget d) []
      in (if Path path \<noteq> [] \<and> stripPrefix then
            [getStripPrefix d path (Host rule @ Path path) (Namespace ingress)]
          else [])
         @ (if Path path \<noteq> [] \<and> rewriteTarget \<noteq> [] then
              [getReplacePathRegex d rule path (Namespace ingress) rewriteTarget]
            else [])
         @ optional
             (getFrontendRedirectAppRoot d (Namespace ingress) (Name ingress)
                (Annotations ingress) (Host rule @ Path path) (Path path)))"

definition synthesizedFromRule ::
  "'spec decls \<Rightarrow> Ingress \<Rightarrow> bool \<Rightarrow> IngressRule \<Rightarrow> 'spec Middleware list" where
  "synthesizedFromRule d ingress stripPrefix rule =
     (case HTTP rule of
        None \<Rightarrow> []
      | Some paths \<Rightarrow> concat (map (synthesizedFromPath d ingress stripPrefix rule) paths))"

definition impliedStrip :: "'spec decls \<Rightarrow> Ingress \<Rightarrow> bool" where
  "impliedStrip d ingress \<longleftrightarrow>
     (let ruleType =
            getStringValue (Annotations ingress) (annotationKubernetesRuleType d) ruleTypePathPrefix
      in ruleType = ruleTypePathStrip \<or> ruleType = ruleTypePathPrefixStrip)"

definition synthesisOrder :: "'spec decls \<Rightarrow> Ingress \<Rightarrow> 'spec Middleware list" where
  "synthesisOrder d ingress =
     synthesizedFromAnnotations d ingress
     @ concat (map (synthesizedFromRule d ingress (impliedStrip d ingress)) (Rules ingress))"

text \<open>The references in the order of synthesis.\<close>

definition referenceOrder :: "'spec decls \<Rightarrow> Ingress \<Rightarrow> string list" where
  "referenceOrder d ingress =
     staticReferences d ingress @ map middlewareRef (synthesisOrder d ingress)"

text \<open>Several middlewares added in turn.\<close>

definition addMiddlewares :: "'spec Middleware list \<Rightarrow> 'spec conv \<Rightarrow> 'spec conv" where
  "addMiddlewares ms st =
     st\<lparr>middlewares := middlewares st @ ms,
        middlewareNames := middlewareNames st @ map middlewareRef ms\<rparr>"

text \<open>
  The rewrite-target annotation is there and the rule type is \<open>ReplacePath\<close>: the two
  that must not be used together.
\<close>

definition rewriteConflict :: "'spec decls \<Rightarrow> Ingress \<Rightarrow> string \<Rightarrow> bool" where
  "rewriteConflict d ingress ruleType \<longleftrightarrow>
     getStringValue (Annotations ingress) (annotationKubernetesRewriteTarget d) [] \<noteq> []
     \<and> ruleType = ruleTypeReplacePath"

text \<open>The resource after step 3: the entry points copied to the current annotation.\<close>

definition withEntryPoints :: "'spec decls \<Rightarrow> Ingress \<Rightarrow> Ingress" where
  "withEntryPoints d ingress =
     (case annotation (Annotations ingress) (annotationKubernetesFrontendEntryPoints d) of
        None \<Rightarrow> ingress
      | Some entryPoints \<Rightarrow>
          if entryPoints = [] then ingress
          else ingress\<lparr>Annotations :=
                 map_option
                   (\<lambda>m. m(''traefik.ingress.kubernetes.io/router.entrypoints'' \<mapsto> entryPoints))
                   (Annotations ingress)\<rparr>)"

text \<open>Every rule of the resource has an http section.\<close>

definition rulesHaveHTTP :: "Ingress \<Rightarrow> bool" where
  "rulesHaveHTTP ingress \<longleftrightarrow> list_all (\<lambda>rule. HTTP rule \<noteq> None) (Rules ingress)"

text \<open>Some path of some rule of the resource is not empty.\<close>

definition hasNonEmptyPath :: "Ingress \<Rightarrow> bool" where
  "hasNonEmptyPath ingress \<longleftrightarrow>
     list_ex
       (\<lambda>rule. case HTTP rule of
                 None \<Rightarrow> False
               | Some paths \<Rightarrow> list_ex (\<lambda>path. Path path \<noteq> []) paths)
       (Rules ingress)"

text \<open>The classes of the list extractor, on one element of the items.\<close>

definition isMap :: "iface \<Rightarrow> bool" where
  "isMap elt = (case elt of Map obj \<Rightarrow> True | _ \<Rightarrow> False)"

definition isToConvert :: "iface \<Rightarrow> bool" where
  "isToConvert elt = (case elt of Map obj \<Rightarrow> isIngress obj | _ \<Rightarrow> False)"


text \<open>
  The rules, taken in their order, come to a path that is not empty before they come to
  a rule with no http section.
\<close>

fun reachesNonEmptyPath :: "IngressRule list \<Rightarrow> bool" where
  "reachesNonEmptyPath [] = False"
| "reachesNonEmptyPath (rule # rules) =
     (case HTTP rule of
        None \<Rightarrow> False
      | Some paths \<Rightarrow> list_ex (\<lambda>path. Path path \<noteq> []) paths \<or> reachesNonEmptyPath rules)"


section \<open>Instances for evaluation\<close>

text \<open>
  An instance of the declarations of the other files, for evaluating
  \<open>convertIngress\<close> on concrete resources: seven distinct annotation keys, and
  functions that synthesize nothing.
\<close>

definition noMiddleware :: "unit decls" where
  "noMiddleware =
     \<lparr>annotationKubernetesIngressClass = ''kubernetes.io/ingress.class'',
      annotationKubernetesFrontendEntryPoints = ''ingress.kubernetes.io/frontend-entry-points'',
      annotationKubernetesSSLRedirect = ''ingress.kubernetes.io/ssl-redirect'',
      annotationKubernetesRequestModifier = ''ingress.kubernetes.io/request-modifier'',
      annotationKubernetesAppRoot = ''ingress.kubernetes.io/app-root'',
      annotationKubernetesRuleType = ''ingress.kubernetes.io/rule-type'',
      annotationKubernetesRewriteTarget = ''ingress.kubernetes.io/rewrite-target'',
      getAuthMiddleware = (\<lambda>ingress. None),
      getHeadersMiddleware = (\<lambda>ingress. None),
      getWhiteList = (\<lambda>ingress. None),
      parseRequestModifier = (\<lambda>namespace modifier name. Inl (LibraryError ''unsupported'')),
      getFrontendRedirect = (\<lambda>namespace name annotations. None),
      getStripPrefix =
        (\<lambda>path key namespace.
           \<lparr>Name = ''strip'', Namespace = namespace, Annotations = None, Spec = ()\<rparr>),
      getReplacePathRegex =
        (\<lambda>rule path namespace target.
           \<lparr>Name = ''replace'', Namespace = namespace, Annotations = None, Spec = ()\<rparr>),
      getFrontendRedirectAppRoot = (\<lambda>namespace name annotations key path. None)\<rparr>"

text \<open>
  The same, with an auth middleware named \<open>web-z-auth\<close> and a whitelist middleware
  named \<open>web-a-whitelist\<close> for every resource.
\<close>

definition authAndWhiteList :: "unit decls" where
  "authAndWhiteList =
     noMiddleware
       \<lparr>getAuthMiddleware :=
          (\<lambda>ingress. Some \<lparr>Name = ''web-z-auth'', Namespace = Namespace ingress,
                           Annotations = None, Spec = ()\<rparr>),
        getWhiteList :=
          (\<lambda>ingress. Some \<lparr>Name = ''web-a-whitelist'', Namespace = Namespace ingress,
                           Annotations = None, Spec = ()\<rparr>)\<rparr>"

text \<open>
  A resource named \<open>web\<close> in the namespace \<open>default\<close>, with the annotations and the
  rules given, and a rule with a host and the paths given.
\<close>

definition ingressWith :: "(string \<times> string) list \<Rightarrow> IngressRule list \<Rightarrow> Ingress" where
  "ingressWith annotations rules =
     \<lparr>Name = ''web'', Namespace = ''default'', Annotations = Some (map_of annotations),
      Rules = rules\<rparr>"

definition ruleWith :: "string \<Rightarrow> string list \<Rightarrow> IngressRule" where
  "ruleWith host paths =
     \<lparr>Host = host, HTTP = Some (map (\<lambda>p. \<lparr>Path = p, PathType = None\<rparr>) paths)\<rparr>"

text \<open>
  An instance of the library calls, for evaluating the file level on concrete files. The
  YAML decoder is a table from documents to their values, and fails on any other
  document; the encoder is a table too; the universal deserializer knows no kind; the
  file system holds the files of a table and accepts every write.
\<close>

definition tableLib ::
  "(string \<times> Unstructured) list \<Rightarrow> (Unstructured \<times> string) list \<Rightarrow> (string \<times> string) list
     \<Rightarrow> (unit, unit, unit) lib" where
  "tableLib documents encodings files =
     \<lparr>yamlUnmarshal =
        (\<lambda>content. case map_of documents content of
                      None \<Rightarrow> Inl (LibraryError ''yaml: malformed document'')
                    | Some obj \<Rightarrow> Inr obj),
      yamlMarshal =
        (\<lambda>obj. case map_of encodings obj of
                  None \<Rightarrow> Inl (LibraryError ''yaml: unsupported value'')
                | Some m \<Rightarrow> Inr m),
      Decode = (\<lambda>content. Inl (LibraryError ''no kind is registered for the document'')),
      protoMarshal = (\<lambda>i. Inl (LibraryError ''unsupported'')),
      protoUnmarshal = (\<lambda>data. Inl (LibraryError ''unsupported'')),
      AddToScheme = None,
      SerializerInfoForMediaType = True,
      ParseGroupVersion = (\<lambda>groupName. Inl (LibraryError ''unsupported'')),
      Encode = (\<lambda>gv object. Inl (LibraryError ''unsupported'')),
      networkingGroup = ''networking.k8s.io'',
      networkingVersion = ''v1'',
      v1alpha1GroupName = ''traefik.containo.us'',
      filepathJoin = (\<lambda>dir name. dir @ ''/'' @ name),
      ReadFile =
        (\<lambda>path. case map_of files path of
                   None \<Rightarrow> Inl (LibraryError ''no such file'')
                 | Some content \<Rightarrow> Inr content),
      MkdirAll = (\<lambda>path. None),
      WriteFile = (\<lambda>path content. None)\<rparr>"

text \<open>An ingress and a config map as decoded values, and a list of items.\<close>

definition ingressItem :: Unstructured where
  "ingressItem =
     [(''apiVersion'', String ''networking.k8s.io/v1''), (''kind'', String ''Ingress''),
      (''metadata'', Map [(''name'', String ''web'')])]"

definition configMapItem :: Unstructured where
  "configMapItem =
     [(''apiVersion'', String ''v1''), (''kind'', String ''ConfigMap''),
      (''metadata'', Map [(''name'', String ''settings'')])]"

definition listOf :: "iface list \<Rightarrow> Unstructured" where
  "listOf items = [(''apiVersion'', String ''v1''), (''kind'', String ''List''), (''items'', Slice items)]"

text \<open>
  A file of two documents: a list that holds the ingress, and a list that holds the
  config map. Decoding the whole file gives its first document.
\<close>

definition ingressListDocument :: string where
  "ingressListDocument =
     ''{apiVersion: v1, kind: List, items: [{apiVersion: networking.k8s.io/v1, kind: Ingress, metadata: {name: web}}]}''
     @ newline"

definition configMapListDocument :: string where
  "configMapListDocument =
     ''{apiVersion: v1, kind: List, items: [{apiVersion: v1, kind: ConfigMap, metadata: {name: settings}}]}''
     @ newline"

definition ingressEncoding :: string where
  "ingressEncoding =
     ''apiVersion: networking.k8s.io/v1'' @ newline @ ''kind: Ingress'' @ newline
     @ ''metadata:'' @ newline @ ''  name: web'' @ newline"

definition twoListsFile :: string where
  "twoListsFile = ingressListDocument @ separator @ newline @ configMapListDocument"

definition twoListsLib :: "(unit, unit, unit) lib" where
  "twoListsLib =
     tableLib
       [(twoListsFile, listOf [Map ingressItem]),
        (ingressListDocument, listOf [Map ingressItem]),
        (newline @ configMapListDocument, listOf [Map configMapItem])]
       [(ingressItem, ingressEncoding)]
       [(''in/lists.yml'', twoListsFile)]"

text \<open>
  A file of two documents, the second one malformed. The file keeps its content through
  \<open>expandFileContent\<close>, but for a line feed after the separator.
\<close>

definition malformedFile :: string where
  "malformedFile = ''a: 1'' @ newline @ separator @ newline @ ''b: [''"

definition malformedLib :: "(unit, unit, unit) lib" where
  "malformedLib =
     tableLib
       [(malformedFile, [(''a'', Number 1)]),
        (''a: 1'' @ newline, [(''a'', Number 1)])]
       []
       [(''in/two.yml'', malformedFile)]"

text \<open>
  A file of two documents that the YAML decoder decodes and that name no kind. The
  second fragment has one more line feed in front once the file is through
  \<open>expandFileContent\<close>.
\<close>

definition plainFile :: string where
  "plainFile = ''a: 1'' @ newline @ separator @ newline @ ''b: 2'' @ newline"

definition plainLib :: "(unit, unit, unit) lib" where
  "plainLib =
     tableLib
       [(plainFile, [(''a'', Number 1)]),
        (''a: 1'' @ newline, [(''a'', Number 1)]),
        (newline @ newline @ ''b: 2'' @ newline, [(''b'', Number 2)])]
       []
       [(''in/plain.yml'', plainFile)]"


section \<open>Properties\<close>

subsection \<open>Strings\<close>

text \<open>\<open>HasPrefix\<close> and \<open>Contains\<close> are what their names say.\<close>

lemma HasPrefix_iff: "HasPrefix s p \<longleftrightarrow> (\<exists>q. s = p @ q)"
  by (induction s p rule: HasPrefix.induct) auto

lemma Contains_iff: "Contains s sub \<longleftrightarrow> (\<exists>p q. s = p @ sub @ q)"
proof (induction s)
  case Nil
  then show ?case by auto
next
  case (Cons c cs)
  have "(\<exists>p q. c # cs = p @ sub @ q) \<longleftrightarrow> (\<exists>q. c # cs = sub @ q) \<or> (\<exists>p q. cs = p @ sub @ q)"
  proof
    assume "\<exists>p q. c # cs = p @ sub @ q"
    then obtain p q where e: "c # cs = p @ sub @ q" by blast
    show "(\<exists>q. c # cs = sub @ q) \<or> (\<exists>p q. cs = p @ sub @ q)"
    proof (cases p)
      case Nil
      with e show ?thesis by auto
    next
      case (Cons a p')
      with e have "cs = p' @ sub @ q" by simp
      then show ?thesis by blast
    qed
  next
    assume "(\<exists>q. c # cs = sub @ q) \<or> (\<exists>p q. cs = p @ sub @ q)"
    then show "\<exists>p q. c # cs = p @ sub @ q"
    proof
      assume "\<exists>q. c # cs = sub @ q"
      then obtain q where "c # cs = [] @ sub @ q" by auto
      then show ?thesis by blast
    next
      assume "\<exists>p q. cs = p @ sub @ q"
      then obtain p q where "c # cs = (c # p) @ sub @ q" by auto
      then show ?thesis by blast
    qed
  qed
  with Cons show ?case by (simp add: HasPrefix_iff)
qed



subsection \<open>The name normalizer\<close>
























subsection \<open>The annotation compiler\<close>

text \<open>
  The two slices grow together: what the loops of \<open>convertIngress\<close> accumulate is
  what the steps of the specification list, in their order.
\<close>

lemma addMiddlewares_Nil: "addMiddlewares [] st = st"
  by (simp add: addMiddlewares_def)

lemma addMiddleware_eq: "addMiddleware m st = addMiddlewares [m] st"
  by (simp add: addMiddleware_def addMiddlewares_def)

lemma addOptional_eq: "addOptional r st = addMiddlewares (optional r) st"
  by (cases r) (simp_all add: addOptional_def optional_def addMiddleware_eq addMiddlewares_Nil)

lemma addMiddlewares_append: "addMiddlewares ms' (addMiddlewares ms st) = addMiddlewares (ms @ ms') st"
  by (simp add: addMiddlewares_def)

lemma collectAnnotations_eq:
  "snd (collectAnnotations d ingress) =
     addMiddlewares (synthesizedFromAnnotations d ingress)
       \<lparr>middlewareNames = staticReferences d ingress, middlewares = []\<rparr>"
  by (simp add: collectAnnotations_def synthesizedFromAnnotations_def staticReferences_def Let_def
      addOptional_eq addMiddleware_eq addMiddlewares_append addMiddlewares_Nil optional_def
      split: sum.splits prod.splits option.splits)

lemma convertPaths_Cons:
  "convertPaths d ingress ruleType stripPrefix rule (path # paths) st =
     (if rewriteConflict d ingress ruleType \<and> Path path \<noteq> [] then ReturnNil
      else convertPaths d ingress ruleType stripPrefix rule paths
             (addMiddlewares (synthesizedFromPath d ingress stripPrefix rule path) st))"
  by (simp add: rewriteConflict_def Let_def synthesizedFromPath_def
      addOptional_eq addMiddleware_eq addMiddlewares_append addMiddlewares_Nil)

lemma convertPaths_eq:
  "convertPaths d ingress ruleType stripPrefix rule paths st =
     (if rewriteConflict d ingress ruleType \<and> list_ex (\<lambda>path. Path path \<noteq> []) paths then ReturnNil
      else Continue (addMiddlewares (concat (map (synthesizedFromPath d ingress stripPrefix rule) paths)) st))"
proof (induction paths arbitrary: st)
  case Nil
  then show ?case by (simp add: addMiddlewares_Nil)
next
  case (Cons path paths)
  show ?case
    unfolding convertPaths_Cons Cons.IH
    by (simp add: addMiddlewares_append)
qed

lemma convertRules_eq:
  "list_all (\<lambda>rule. HTTP rule \<noteq> None) rules \<Longrightarrow>
   convertRules d ingress ruleType stripPrefix rules st =
     (if rewriteConflict d ingress ruleType
         \<and> list_ex (\<lambda>rule. case HTTP rule of None \<Rightarrow> False
                      | Some paths \<Rightarrow> list_ex (\<lambda>path. Path path \<noteq> []) paths) rules
      then ReturnNil
      else Continue (addMiddlewares
                       (concat (map (synthesizedFromRule d ingress stripPrefix) rules)) st))"
proof (induction rules arbitrary: st)
  case Nil
  then show ?case by (simp add: addMiddlewares_Nil)
next
  case (Cons rule rules)
  then obtain paths where h: "HTTP rule = Some paths" by auto
  from Cons have r: "list_all (\<lambda>rule. HTTP rule \<noteq> None) rules" by simp
  have sr: "synthesizedFromRule d ingress stripPrefix rule =
      concat (map (synthesizedFromPath d ingress stripPrefix rule) paths)"
    by (simp add: synthesizedFromRule_def h)
  show ?case
    by (simp add: h Cons.IH[OF r] convertPaths_eq sr addMiddlewares_append)
qed

lemma convertRules_Continue:
  "convertRules d ingress ruleType stripPrefix rules st = Continue st' \<Longrightarrow>
     list_all (\<lambda>rule. HTTP rule \<noteq> None) rules"
  by (induction rules arbitrary: st) (auto split: option.splits loop.splits)


lemma gate_iff:
  "(length (getStringValue (Annotations ingress) (annotationKubernetesIngressClass d) []) > 0
     \<and> \<not> Contains (getStringValue (Annotations ingress) (annotationKubernetesIngressClass d) []) ''traefik'')
   \<longleftrightarrow> routedElsewhere d ingress"
  by (auto simp: routedElsewhere_def annotation_def getStringValue_def split: option.splits)

lemma entryPoints_set:
  "(if getStringValue (Annotations ingress) (annotationKubernetesFrontendEntryPoints d) [] \<noteq> []
    then setAnnotation ingress ''traefik.ingress.kubernetes.io/router.entrypoints''
           (getStringValue (Annotations ingress) (annotationKubernetesFrontendEntryPoints d) [])
    else Inr ingress) = Inr (withEntryPoints d ingress)"
  by (auto simp: withEntryPoints_def annotation_def getStringValue_def setAnnotation_def
      split: option.splits)

lemma extractRuleType_strip:
  "extractRuleType d (Annotations ingress) = (log, Inr (ruleType, stripPrefix)) \<Longrightarrow>
     stripPrefix = impliedStrip d ingress"
  by (auto simp: extractRuleType_def impliedStrip_def Let_def ruleTypePath_def ruleTypePathPrefix_def
      ruleTypePathStrip_def ruleTypePathPrefixStrip_def ruleTypeReplacePath_def split: if_splits)

lemma convertIngress_gate:
  "routedElsewhere d ingress \<Longrightarrow> convertIngress d ingress = ([], Inr (Some ingress, []))"
  using gate_iff[of ingress d] by (simp add: convertIngress_def Let_def)

lemma convertIngress_error:
  assumes "\<not> routedElsewhere d ingress"
    and "extractRuleType d (Annotations ingress) = (log', Inl err)"
  shows "convertIngress d ingress =
     (fst (collectAnnotations d ingress) @ log' @ [LogError err], Inr (None, []))"
  using assms gate_iff[of ingress d]
  by (simp add: convertIngress_def Let_def entryPoints_set case_prod_beta)

lemma convertIngress_converted:
  assumes "\<not> routedElsewhere d ingress"
    and "rulesHaveHTTP ingress"
    and "extractRuleType d (Annotations ingress) = (log', Inr (ruleType, stripPrefix))"
  shows "convertIngress d ingress =
     (if rewriteConflict d ingress ruleType \<and> hasNonEmptyPath ingress then
        (fst (collectAnnotations d ingress) @ log'
           @ [LogRewriteTargetConflict (annotationKubernetesRuleType d)], Inr (None, []))
      else
        (fst (collectAnnotations d ingress) @ log',
         case (if referenceOrder d ingress \<noteq> [] then
                 setAnnotation (withEntryPoints d ingress)
                   ''traefik.ingress.kubernetes.io/router.middlewares''
                   (Join (referenceOrder d ingress) '','')
               else Inr (withEntryPoints d ingress)) of
           Inl p \<Rightarrow> Inl p
         | Inr newIngress \<Rightarrow> Inr (Some newIngress, sort_key Name (synthesisOrder d ingress))))"
proof -
  have sp: "stripPrefix = impliedStrip d ingress"
    using assms(3) by (rule extractRuleType_strip)
  have h: "list_all (\<lambda>rule. HTTP rule \<noteq> None) (Rules ingress)"
    using assms(2) by (simp add: rulesHaveHTTP_def)
  have c: "collectAnnotations d ingress =
      (fst (collectAnnotations d ingress),
       addMiddlewares (synthesizedFromAnnotations d ingress)
         \<lparr>middlewareNames = staticReferences d ingress, middlewares = []\<rparr>)"
    using collectAnnotations_eq[of d ingress] by (simp add: prod_eq_iff)
  show ?thesis
    unfolding convertIngress_def Let_def
    using assms(1) gate_iff[of ingress d]
    apply (simp only: if_False entryPoints_set sum.case)
    apply (subst c)
    apply (simp only: prod.case assms(3) sum.case convertRules_eq[OF h] hasNonEmptyPath_def[symmetric])
    apply (simp add: addMiddlewares_def referenceOrder_def synthesisOrder_def sp split: sum.splits)
    done
qed

lemma convertIngress_rulesHaveHTTP:
  assumes "\<not> routedElsewhere d ingress"
    and "convertIngress d ingress = (log, Inr (Some newIngress, objects))"
  shows "rulesHaveHTTP ingress"
proof -
  obtain log' r where e: "extractRuleType d (Annotations ingress) = (log', r)"
    by (cases "extractRuleType d (Annotations ingress)")
  show ?thesis
  proof (cases r)
    case (Inl err)
    with assms e convertIngress_error[of d ingress log' err] show ?thesis by simp
  next
    case (Inr p)
    obtain ruleType stripPrefix where p: "p = (ruleType, stripPrefix)" by (cases p)
    obtain lg st where c: "collectAnnotations d ingress = (lg, st)"
      by (cases "collectAnnotations d ingress")
    from assms gate_iff[of ingress d] e Inr p c
    obtain st' where "convertRules d ingress ruleType stripPrefix (Rules ingress) st = Continue st'"
      by (auto simp: convertIngress_def Let_def entryPoints_set split: loop.splits sum.splits if_splits)
    then show ?thesis
      unfolding rulesHaveHTTP_def by (rule convertRules_Continue)
  qed
qed

subsection \<open>The class gate\<close>

text \<open>
  C6. A resource whose ingress-class annotation is there, is not empty and does not
  contain \<open>traefik\<close> is returned as it is, with no middleware (and nothing is logged).
\<close>

theorem convertIngress_routed_elsewhere:
  assumes "annotation (Annotations ingress) (annotationKubernetesIngressClass d) = Some class"
    and "class \<noteq> []"
    and "\<not> Contains class ''traefik''"
  shows "convertIngress d ingress = ([], Inr (Some ingress, []))"
proof -
  from assms have "routedElsewhere d ingress"
    by (simp add: routedElsewhere_def)
  then show ?thesis by (rule convertIngress_gate)
qed

text \<open>The resource of the specification's example: the ingress class \<open>nginx\<close>.\<close>

theorem convertIngress_routed_elsewhere_witness:
  "annotation (Annotations (ingressWith [(''kubernetes.io/ingress.class'', ''nginx'')] []))
      (annotationKubernetesIngressClass noMiddleware) = Some ''nginx''
   \<and> ''nginx'' \<noteq> []
   \<and> \<not> Contains ''nginx'' ''traefik''
   \<and> convertIngress noMiddleware (ingressWith [(''kubernetes.io/ingress.class'', ''nginx'')] [])
       = ([], Inr (Some (ingressWith [(''kubernetes.io/ingress.class'', ''nginx'')] []), []))"
proof -
  have a: "annotation (Annotations (ingressWith [(''kubernetes.io/ingress.class'', ''nginx'')] []))
      (annotationKubernetesIngressClass noMiddleware) = Some ''nginx''"
    by (simp add: annotation_def ingressWith_def noMiddleware_def)
  have b: "''nginx'' \<noteq> []" by simp
  have c: "\<not> Contains ''nginx'' ''traefik''" by simp
  from convertIngress_routed_elsewhere[OF a b c] a b c show ?thesis by simp
qed

text \<open>
  The two panics of \<open>convertIngress\<close>: a rule with no http section, and a reference
  to write into a \<open>nil\<close> annotations map.
\<close>

lemma convertIngress_rule_without_http:
  "convertIngress noMiddleware (ingressWith [] [\<lparr>Host = ''a.com'', HTTP = None\<rparr>])
     = ([], Inl NilPointerDereference)"
  by (simp add: convertIngress_def collectAnnotations_def extractRuleType_def getStringValue_def
      ingressWith_def noMiddleware_def addOptional_def Let_def
      ruleTypePath_def ruleTypePathPrefix_def)

lemma convertIngress_nil_annotations:
  "convertIngress authAndWhiteList \<lparr>Name = ''web'', Namespace = ''default'', Annotations = None, Rules = []\<rparr>
     = ([], Inl AssignmentToNilMap)"
  by (simp add: convertIngress_def collectAnnotations_def extractRuleType_def getStringValue_def
      setAnnotation_def authAndWhiteList_def noMiddleware_def addOptional_def addMiddleware_def
      Let_def ruleTypePath_def ruleTypePathPrefix_def)

subsection \<open>The rule type\<close>

lemma getStringValue_annotation:
  "getStringValue annotations key defaultValue =
     (case annotation annotations key of None \<Rightarrow> defaultValue | Some v \<Rightarrow> v)"
  by (simp add: getStringValue_def annotation_def split: option.splits)

lemma extractRuleType_other:
  assumes "annotation annotations (annotationKubernetesRuleType d) = Some v"
    and "v \<notin> set [''Path'', ''PathPrefix'', ''PathStrip'', ''PathPrefixStrip'', ''ReplacePath'']"
  shows "extractRuleType d annotations = ([], Inl (CannotUseNonMatcherRule v))"
  using assms
  by (simp add: extractRuleType_def getStringValue_annotation Let_def ruleTypePath_def
      ruleTypePathPrefix_def ruleTypePathStrip_def ruleTypePathPrefixStrip_def
      ruleTypeReplacePath_def)

text \<open>
  C1, as stated, fails: the class gate comes first. A resource of the ingress class
  \<open>nginx\<close> whose rule type is \<open>Foo\<close> has a rule type that \<open>extractRuleType\<close> refuses,
  and \<open>convertIngress\<close> returns the resource, not \<open>nil\<close>.
\<close>

theorem convertIngress_gate_before_rule_type:
  "extractRuleType noMiddleware
      (Annotations (ingressWith [(''kubernetes.io/ingress.class'', ''nginx''),
                                 (''ingress.kubernetes.io/rule-type'', ''Foo'')] []))
     = ([], Inl (CannotUseNonMatcherRule ''Foo''))
   \<and> convertIngress noMiddleware
        (ingressWith [(''kubernetes.io/ingress.class'', ''nginx''),
                      (''ingress.kubernetes.io/rule-type'', ''Foo'')] [])
     = ([], Inr (Some (ingressWith [(''kubernetes.io/ingress.class'', ''nginx''),
                                    (''ingress.kubernetes.io/rule-type'', ''Foo'')] []), []))"
proof -
  let ?x = "ingressWith [(''kubernetes.io/ingress.class'', ''nginx''),
                         (''ingress.kubernetes.io/rule-type'', ''Foo'')] []"
  have "annotation (Annotations ?x) (annotationKubernetesRuleType noMiddleware) = Some ''Foo''"
    by (simp add: annotation_def ingressWith_def noMiddleware_def)
  then have e: "extractRuleType noMiddleware (Annotations ?x) = ([], Inl (CannotUseNonMatcherRule ''Foo''))"
    by (rule extractRuleType_other) simp
  have "routedElsewhere noMiddleware ?x"
    by (simp add: routedElsewhere_def annotation_def ingressWith_def noMiddleware_def)
  then have "convertIngress noMiddleware ?x = ([], Inr (Some ?x, []))"
    by (rule convertIngress_gate)
  with e show ?thesis by simp
qed

text \<open>
  C1, amended. The rule type is read with the default \<open>PathPrefix\<close>: when the annotation
  is absent the result is \<open>PathPrefix\<close> with no strip; \<open>Path\<close> and \<open>PathPrefix\<close> are
  returned as they are, with no strip; \<open>PathStrip\<close> gives \<open>Path\<close> with strip;
  \<open>PathPrefixStrip\<close> gives \<open>PathPrefix\<close> with strip; \<open>ReplacePath\<close> is returned with
  no strip and the deprecation line is logged; any other value is an error, and then
  \<open>convertIngress\<close>, for a resource that passes the class gate, logs the error and
  returns no resource and no middleware. What the caller does with the \<open>nil\<close> resource
  is no part of the statement.
\<close>

theorem extractRuleType_resolution:
  "(annotation annotations (annotationKubernetesRuleType d) = None \<longrightarrow>
      extractRuleType d annotations = ([], Inr (''PathPrefix'', False)))
   \<and> (annotation annotations (annotationKubernetesRuleType d) = Some ''Path'' \<longrightarrow>
      extractRuleType d annotations = ([], Inr (''Path'', False)))
   \<and> (annotation annotations (annotationKubernetesRuleType d) = Some ''PathPrefix'' \<longrightarrow>
      extractRuleType d annotations = ([], Inr (''PathPrefix'', False)))
   \<and> (annotation annotations (annotationKubernetesRuleType d) = Some ''PathStrip'' \<longrightarrow>
      extractRuleType d annotations = ([], Inr (''Path'', True)))
   \<and> (annotation annotations (annotationKubernetesRuleType d) = Some ''PathPrefixStrip'' \<longrightarrow>
      extractRuleType d annotations = ([], Inr (''PathPrefix'', True)))
   \<and> (annotation annotations (annotationKubernetesRuleType d) = Some ''ReplacePath'' \<longrightarrow>
      extractRuleType d annotations =
        ([LogDeprecatedRuleType ''ReplacePath'' (annotationKubernetesRuleType d)
            (annotationKubernetesRequestModifier d)],
         Inr (''ReplacePath'', False)))
   \<and> (annotation annotations (annotationKubernetesRuleType d) = Some v
       \<and> v \<notin> set [''Path'', ''PathPrefix'', ''PathStrip'', ''PathPrefixStrip'', ''ReplacePath''] \<longrightarrow>
      extractRuleType d annotations = ([], Inl (CannotUseNonMatcherRule v)))
   \<and> (annotation (Annotations ingress) (annotationKubernetesRuleType d) = Some v
       \<and> v \<notin> set [''Path'', ''PathPrefix'', ''PathStrip'', ''PathPrefixStrip'', ''ReplacePath'']
       \<and> \<not> routedElsewhere d ingress \<longrightarrow>
      convertIngress d ingress =
        (fst (collectAnnotations d ingress) @ [LogError (CannotUseNonMatcherRule v)],
         Inr (None, [])))"
proof (intro conjI impI)
  assume a: "annotation (Annotations ingress) (annotationKubernetesRuleType d) = Some v
    \<and> v \<notin> set [''Path'', ''PathPrefix'', ''PathStrip'', ''PathPrefixStrip'', ''ReplacePath'']
    \<and> \<not> routedElsewhere d ingress"
  then have "extractRuleType d (Annotations ingress) = ([], Inl (CannotUseNonMatcherRule v))"
    by (intro extractRuleType_other) simp_all
  with a convertIngress_error[of d ingress "[]" "CannotUseNonMatcherRule v"]
  show "convertIngress d ingress =
      (fst (collectAnnotations d ingress) @ [LogError (CannotUseNonMatcherRule v)], Inr (None, []))"
    by simp
qed (simp_all add: extractRuleType_def getStringValue_annotation Let_def ruleTypePath_def
      ruleTypePathPrefix_def ruleTypePathStrip_def ruleTypePathPrefixStrip_def
      ruleTypeReplacePath_def)

text \<open>Each case of the resolution, on a concrete annotations map.\<close>

theorem extractRuleType_resolution_witness:
  "extractRuleType noMiddleware None = ([], Inr (''PathPrefix'', False))
   \<and> extractRuleType noMiddleware (Some (map_of [(''ingress.kubernetes.io/rule-type'', ''Path'')]))
       = ([], Inr (''Path'', False))
   \<and> extractRuleType noMiddleware (Some (map_of [(''ingress.kubernetes.io/rule-type'', ''PathPrefix'')]))
       = ([], Inr (''PathPrefix'', False))
   \<and> extractRuleType noMiddleware (Some (map_of [(''ingress.kubernetes.io/rule-type'', ''PathStrip'')]))
       = ([], Inr (''Path'', True))
   \<and> extractRuleType noMiddleware
        (Some (map_of [(''ingress.kubernetes.io/rule-type'', ''PathPrefixStrip'')]))
       = ([], Inr (''PathPrefix'', True))
   \<and> extractRuleType noMiddleware (Some (map_of [(''ingress.kubernetes.io/rule-type'', ''ReplacePath'')]))
       = ([LogDeprecatedRuleType ''ReplacePath'' ''ingress.kubernetes.io/rule-type''
             ''ingress.kubernetes.io/request-modifier''],
          Inr (''ReplacePath'', False))
   \<and> extractRuleType noMiddleware (Some (map_of [(''ingress.kubernetes.io/rule-type'', ''AddPrefix'')]))
       = ([], Inl (CannotUseNonMatcherRule ''AddPrefix''))
   \<and> \<not> routedElsewhere noMiddleware
          (ingressWith [(''ingress.kubernetes.io/rule-type'', ''AddPrefix'')] [ruleWith ''a.com'' [''/api'']])
   \<and> convertIngress noMiddleware
        (ingressWith [(''ingress.kubernetes.io/rule-type'', ''AddPrefix'')] [ruleWith ''a.com'' [''/api'']])
       = ([LogError (CannotUseNonMatcherRule ''AddPrefix'')], Inr (None, []))"
proof -
  let ?k = "''ingress.kubernetes.io/rule-type''"
  let ?x = "ingressWith [(?k, ''AddPrefix'')] [ruleWith ''a.com'' [''/api'']]"
  have k: "annotationKubernetesRuleType noMiddleware = ?k"
    and m: "annotationKubernetesRequestModifier noMiddleware = ''ingress.kubernetes.io/request-modifier''"
    by (simp_all add: noMiddleware_def)
  have g: "\<not> routedElsewhere noMiddleware ?x"
    by (simp add: routedElsewhere_def annotation_def ingressWith_def noMiddleware_def)
  have c: "fst (collectAnnotations noMiddleware ?x) = []"
    by (simp add: collectAnnotations_def getStringValue_def ingressWith_def noMiddleware_def)
  have x: "Annotations ?x = Some (map_of [(?k, ''AddPrefix'')])"
    by (simp add: ingressWith_def)
  show ?thesis
    using extractRuleType_resolution[of None noMiddleware v ?x]
      extractRuleType_resolution[of "Some (map_of [(?k, ''Path'')])" noMiddleware v ?x]
      extractRuleType_resolution[of "Some (map_of [(?k, ''PathPrefix'')])" noMiddleware v ?x]
      extractRuleType_resolution[of "Some (map_of [(?k, ''PathStrip'')])" noMiddleware v ?x]
      extractRuleType_resolution[of "Some (map_of [(?k, ''PathPrefixStrip'')])" noMiddleware v ?x]
      extractRuleType_resolution[of "Some (map_of [(?k, ''ReplacePath'')])" noMiddleware v ?x]
      extractRuleType_resolution[of "Some (map_of [(?k, ''AddPrefix'')])" noMiddleware "''AddPrefix''" ?x]
    unfolding k m x c using g
    by (simp add: annotation_def)
qed

subsection \<open>The rewrite target and the rule type \<open>ReplacePath\<close>\<close>

text \<open>
  C4, as stated, fails: the test is made in the loop over the paths, for a path that is
  not empty. A resource with the rule type \<open>ReplacePath\<close> and a rewrite target, whose
  only path is the empty path, is converted: \<open>convertIngress\<close> returns the resource.
\<close>

theorem convertIngress_rewrite_target_empty_path:
  "convertIngress noMiddleware
     (ingressWith [(''ingress.kubernetes.io/rule-type'', ''ReplacePath''),
                   (''ingress.kubernetes.io/rewrite-target'', ''/new'')]
        [ruleWith ''a.com'' ['''']])
   = ([LogDeprecatedRuleType ''ReplacePath'' ''ingress.kubernetes.io/rule-type''
         ''ingress.kubernetes.io/request-modifier''],
      Inr (Some (ingressWith [(''ingress.kubernetes.io/rule-type'', ''ReplacePath''),
                              (''ingress.kubernetes.io/rewrite-target'', ''/new'')]
                   [ruleWith ''a.com'' ['''']]), []))"
  by (simp add: convertIngress_def collectAnnotations_def extractRuleType_def getStringValue_def
      ingressWith_def ruleWith_def noMiddleware_def addOptional_def Let_def
      ruleTypePath_def ruleTypePathPrefix_def ruleTypePathStrip_def ruleTypePathPrefixStrip_def
      ruleTypeReplacePath_def)

text \<open>
  With the rewrite target and the rule type \<open>ReplacePath\<close>, the loops return \<open>nil\<close> at
  the first path that is not empty, whatever the rules after it; they return \<open>nil\<close> in
  no other case.
\<close>

lemma convertRules_ReturnNil:
  "convertRules d ingress ruleType stripPrefix rules st = ReturnNil
     \<longleftrightarrow> rewriteConflict d ingress ruleType \<and> reachesNonEmptyPath rules"
proof (induction rules arbitrary: st)
  case Nil
  then show ?case by simp
next
  case (Cons rule rules)
  show ?case
  proof (cases "HTTP rule")
    case None
    then show ?thesis by simp
  next
    case (Some paths)
    then show ?thesis
      by (simp add: convertPaths_eq Cons.IH) blast
  qed
qed

lemma convertIngress_ReturnNil:
  assumes "\<not> routedElsewhere d ingress"
    and "extractRuleType d (Annotations ingress) = (log', Inr (ruleType, stripPrefix))"
    and "rewriteConflict d ingress ruleType"
  shows "reachesNonEmptyPath (Rules ingress) \<Longrightarrow>
      convertIngress d ingress =
        (fst (collectAnnotations d ingress) @ log'
           @ [LogRewriteTargetConflict (annotationKubernetesRuleType d)], Inr (None, []))"
    and "\<not> reachesNonEmptyPath (Rules ingress) \<Longrightarrow>
      snd (convertIngress d ingress) \<noteq> Inr (None, [])"
proof -
  obtain lg st where c: "collectAnnotations d ingress = (lg, st)"
    by (cases "collectAnnotations d ingress")
  have g: "\<not> (length (getStringValue (Annotations ingress) (annotationKubernetesIngressClass d) []) > 0
      \<and> \<not> Contains (getStringValue (Annotations ingress) (annotationKubernetesIngressClass d) [])
            ''traefik'')"
    using assms(1) gate_iff[of ingress d] by simp
  {
    assume "reachesNonEmptyPath (Rules ingress)"
    with assms(3)
    have "convertRules d ingress ruleType stripPrefix (Rules ingress) st = ReturnNil"
      by (simp add: convertRules_ReturnNil)
    with g c assms(2)
    show "convertIngress d ingress =
        (fst (collectAnnotations d ingress) @ log'
           @ [LogRewriteTargetConflict (annotationKubernetesRuleType d)], Inr (None, []))"
      unfolding convertIngress_def Let_def
      by (simp only: if_False entryPoints_set sum.case prod.case loop.case fst_conv)
  }
  {
    assume "\<not> reachesNonEmptyPath (Rules ingress)"
    then have n: "convertRules d ingress ruleType stripPrefix (Rules ingress) st \<noteq> ReturnNil"
      by (simp add: convertRules_ReturnNil)
    have "convertIngress d ingress =
        (case convertRules d ingress ruleType stripPrefix (Rules ingress) st of
           Panicked p \<Rightarrow> (lg @ log', Inl p)
         | ReturnNil \<Rightarrow>
             (lg @ log' @ [LogRewriteTargetConflict (annotationKubernetesRuleType d)],
              Inr (None, []))
         | Continue st' \<Rightarrow>
             (case (if length (middlewareNames st') > 0 then
                      setAnnotation (withEntryPoints d ingress)
                        ''traefik.ingress.kubernetes.io/router.middlewares''
                        (Join (middlewareNames st') '','')
                    else Inr (withEntryPoints d ingress)) of
                Inl p \<Rightarrow> (lg @ log', Inl p)
              | Inr newIngress \<Rightarrow>
                  (lg @ log', Inr (Some newIngress, sort_key Name (middlewares st')))))"
      using g c assms(2)
      unfolding convertIngress_def Let_def
      by (simp only: if_False entryPoints_set sum.case prod.case)
    with n show "snd (convertIngress d ingress) \<noteq> Inr (None, [])"
      by (auto split: loop.splits sum.splits if_splits)
  }
qed

text \<open>
  C4, amended. For a resource that passes the class gate, whose rule type is
  \<open>ReplacePath\<close> and that carries a rewrite target that is not empty: when its rules, in
  their order, come to a path that is not empty before they come to a rule with no http
  section, \<open>convertIngress\<close> logs the conflict and returns no resource and no middleware;
  when they do not, \<open>convertIngress\<close> does not return \<open>nil\<close>. What the caller does with
  the \<open>nil\<close> resource is no part of the statement.
\<close>

theorem convertIngress_rewrite_conflict:
  assumes "annotation (Annotations ingress) (annotationKubernetesRuleType d) = Some ''ReplacePath''"
    and "annotation (Annotations ingress) (annotationKubernetesRewriteTarget d) = Some target"
    and "target \<noteq> []"
    and "\<not> routedElsewhere d ingress"
  shows "(reachesNonEmptyPath (Rules ingress) \<longrightarrow>
        convertIngress d ingress =
          (fst (collectAnnotations d ingress)
             @ [LogDeprecatedRuleType ''ReplacePath'' (annotationKubernetesRuleType d)
                  (annotationKubernetesRequestModifier d),
                LogRewriteTargetConflict (annotationKubernetesRuleType d)],
           Inr (None, [])))
     \<and> (\<not> reachesNonEmptyPath (Rules ingress) \<longrightarrow>
          snd (convertIngress d ingress) \<noteq> Inr (None, []))"
proof -
  from assms(1)
  have e: "extractRuleType d (Annotations ingress) =
      ([LogDeprecatedRuleType ''ReplacePath'' (annotationKubernetesRuleType d)
          (annotationKubernetesRequestModifier d)],
       Inr (''ReplacePath'', False))"
    by (simp add: extractRuleType_def getStringValue_annotation Let_def ruleTypePath_def
        ruleTypePathPrefix_def ruleTypePathStrip_def ruleTypePathPrefixStrip_def
        ruleTypeReplacePath_def)
  from assms(2,3) have c: "rewriteConflict d ingress ''ReplacePath''"
    by (simp add: rewriteConflict_def getStringValue_annotation ruleTypeReplacePath_def)
  from convertIngress_ReturnNil[OF assms(4) e c] show ?thesis
    by simp
qed

text \<open>
  The path \<open>/api\<close>, then a rule with no http section: the conflict is found at the path
  and the second rule is not looked at. And the resource whose only path is empty: it is
  converted.
\<close>

theorem convertIngress_rewrite_conflict_witness:
  "annotation
      (Annotations (ingressWith [(''ingress.kubernetes.io/rule-type'', ''ReplacePath''),
                                 (''ingress.kubernetes.io/rewrite-target'', ''/new'')]
                      [ruleWith ''a.com'' [''/api''], \<lparr>Host = ''b.com'', HTTP = None\<rparr>]))
      (annotationKubernetesRuleType noMiddleware) = Some ''ReplacePath''
   \<and> annotation
      (Annotations (ingressWith [(''ingress.kubernetes.io/rule-type'', ''ReplacePath''),
                                 (''ingress.kubernetes.io/rewrite-target'', ''/new'')]
                      [ruleWith ''a.com'' [''/api''], \<lparr>Host = ''b.com'', HTTP = None\<rparr>]))
      (annotationKubernetesRewriteTarget noMiddleware) = Some ''/new''
   \<and> \<not> routedElsewhere noMiddleware
        (ingressWith [(''ingress.kubernetes.io/rule-type'', ''ReplacePath''),
                      (''ingress.kubernetes.io/rewrite-target'', ''/new'')]
           [ruleWith ''a.com'' [''/api''], \<lparr>Host = ''b.com'', HTTP = None\<rparr>])
   \<and> reachesNonEmptyPath [ruleWith ''a.com'' [''/api''], \<lparr>Host = ''b.com'', HTTP = None\<rparr>]
   \<and> convertIngress noMiddleware
        (ingressWith [(''ingress.kubernetes.io/rule-type'', ''ReplacePath''),
                      (''ingress.kubernetes.io/rewrite-target'', ''/new'')]
           [ruleWith ''a.com'' [''/api''], \<lparr>Host = ''b.com'', HTTP = None\<rparr>])
       = ([LogDeprecatedRuleType ''ReplacePath'' ''ingress.kubernetes.io/rule-type''
             ''ingress.kubernetes.io/request-modifier'',
           LogRewriteTargetConflict ''ingress.kubernetes.io/rule-type''],
          Inr (None, []))
   \<and> \<not> reachesNonEmptyPath [ruleWith ''a.com'' ['''']]
   \<and> snd (convertIngress noMiddleware
             (ingressWith [(''ingress.kubernetes.io/rule-type'', ''ReplacePath''),
                           (''ingress.kubernetes.io/rewrite-target'', ''/new'')]
                [ruleWith ''a.com'' ['''']]))
       \<noteq> Inr (None, [])"
proof -
  let ?a = "[(''ingress.kubernetes.io/rule-type'', ''ReplacePath''),
             (''ingress.kubernetes.io/rewrite-target'', ''/new'')]"
  let ?x = "ingressWith ?a [ruleWith ''a.com'' [''/api''], \<lparr>Host = ''b.com'', HTTP = None\<rparr>]"
  let ?y = "ingressWith ?a [ruleWith ''a.com'' ['''']]"
  have a: "annotation (Annotations (ingressWith ?a rules)) (annotationKubernetesRuleType noMiddleware)
      = Some ''ReplacePath''" for rules
    by (simp add: annotation_def ingressWith_def noMiddleware_def)
  have b: "annotation (Annotations (ingressWith ?a rules)) (annotationKubernetesRewriteTarget noMiddleware)
      = Some ''/new''" for rules
    by (simp add: annotation_def ingressWith_def noMiddleware_def)
  have t: "''/new'' \<noteq> []" by simp
  have g: "\<not> routedElsewhere noMiddleware (ingressWith ?a rules)" for rules
    by (simp add: routedElsewhere_def annotation_def ingressWith_def noMiddleware_def)
  have p: "reachesNonEmptyPath (Rules ?x)"
    by (simp add: ingressWith_def ruleWith_def)
  have q: "\<not> reachesNonEmptyPath (Rules ?y)"
    by (simp add: ingressWith_def ruleWith_def)
  have c: "fst (collectAnnotations noMiddleware (ingressWith ?a rules)) = []" for rules
    by (simp add: collectAnnotations_def getStringValue_def ingressWith_def noMiddleware_def)
  have k: "annotationKubernetesRuleType noMiddleware = ''ingress.kubernetes.io/rule-type''"
    and m: "annotationKubernetesRequestModifier noMiddleware = ''ingress.kubernetes.io/request-modifier''"
    by (simp_all add: noMiddleware_def)
  have r: "Rules (ingressWith ?a rules) = rules" for rules
    by (simp add: ingressWith_def)
  from convertIngress_rewrite_conflict[OF a b t g, of "[ruleWith ''a.com'' [''/api''], \<lparr>Host = ''b.com'', HTTP = None\<rparr>]"] p
  have x: "convertIngress noMiddleware ?x
      = ([LogDeprecatedRuleType ''ReplacePath'' ''ingress.kubernetes.io/rule-type''
            ''ingress.kubernetes.io/request-modifier'',
          LogRewriteTargetConflict ''ingress.kubernetes.io/rule-type''],
         Inr (None, []))"
    unfolding c k m by simp
  from convertIngress_rewrite_conflict[OF a b t g, of "[ruleWith ''a.com'' ['''']]"] q
  have y: "snd (convertIngress noMiddleware ?y) \<noteq> Inr (None, [])"
    by simp
  from a b g p[unfolded r] x q[unfolded r] y show ?thesis
    by (intro conjI)
qed

subsection \<open>The references and the middlewares\<close>

text \<open>
  What \<open>convertIngress\<close> returns when it returns a resource, for a resource that
  passes the class gate: the middlewares in the order of their names, and the references
  in the order of synthesis.
\<close>

lemma convertIngress_returns:
  assumes "\<not> routedElsewhere d ingress"
    and "convertIngress d ingress = (log, Inr (Some newIngress, objects))"
  shows "objects = sort_key Name (synthesisOrder d ingress)"
    and "referenceOrder d ingress \<noteq> [] \<Longrightarrow>
      annotation (Annotations newIngress) ''traefik.ingress.kubernetes.io/router.middlewares''
        = Some (Join (referenceOrder d ingress) '','')"
proof -
  have h: "rulesHaveHTTP ingress"
    using assms by (rule convertIngress_rulesHaveHTTP)
  obtain log' r where e: "extractRuleType d (Annotations ingress) = (log', r)"
    by (cases "extractRuleType d (Annotations ingress)")
  from assms e convertIngress_error[of d ingress log']
  obtain ruleType stripPrefix where r: "r = Inr (ruleType, stripPrefix)"
    by (cases r) auto
  note c = convertIngress_converted[OF assms(1) h e[unfolded r]]
  from c assms(2) show "objects = sort_key Name (synthesisOrder d ingress)"
    by (auto split: if_splits sum.splits)
  assume "referenceOrder d ingress \<noteq> []"
  with c assms(2)
  have "setAnnotation (withEntryPoints d ingress)
      ''traefik.ingress.kubernetes.io/router.middlewares''
      (Join (referenceOrder d ingress) '','') = Inr newIngress"
    by (auto split: if_splits sum.splits)
  then show "annotation (Annotations newIngress)
      ''traefik.ingress.kubernetes.io/router.middlewares'' = Some (Join (referenceOrder d ingress) '','')"
    by (auto simp: setAnnotation_def annotation_def split: option.splits)
qed

text \<open>The predicate \<open>isCrdReference\<close> is the form \<open><namespace>-<name>@kubernetescrd\<close>.\<close>

lemma HasSuffix_iff: "HasSuffix s suffix \<longleftrightarrow> (\<exists>p. s = p @ suffix)"
proof -
  have "(\<exists>q. rev s = rev suffix @ q) \<longleftrightarrow> (\<exists>p. s = p @ suffix)"
  proof
    assume "\<exists>q. rev s = rev suffix @ q"
    then obtain q where "rev s = rev suffix @ q" ..
    then have "rev (rev s) = rev (rev suffix @ q)" by simp
    then have "s = rev q @ suffix" by simp
    then show "\<exists>p. s = p @ suffix" ..
  next
    assume "\<exists>p. s = p @ suffix"
    then obtain p where "s = p @ suffix" ..
    then have "rev s = rev suffix @ rev p" by simp
    then show "\<exists>q. rev s = rev suffix @ q" ..
  qed
  then show ?thesis by (simp add: HasSuffix_def HasPrefix_iff)
qed

lemma isCrdReference_iff:
  "isCrdReference r \<longleftrightarrow> (\<exists>namespace name. r = namespace @ ''-'' @ name @ ''@kubernetescrd'')"
proof
  assume "isCrdReference r"
  then obtain p where p: "r = p @ ''@kubernetescrd''" and "CHR ''-'' \<in> set p"
    by (auto simp: isCrdReference_def HasSuffix_iff middlewareSuffix_def)
  then obtain namespace name where "p = namespace @ CHR ''-'' # name"
    by (auto simp: in_set_conv_decomp)
  with p have "r = namespace @ ''-'' @ name @ ''@kubernetescrd''" by simp
  then show "\<exists>namespace name. r = namespace @ ''-'' @ name @ ''@kubernetescrd''" by blast
next
  assume "\<exists>namespace name. r = namespace @ ''-'' @ name @ ''@kubernetescrd''"
  then obtain namespace name where r: "r = (namespace @ ''-'' @ name) @ ''@kubernetescrd''"
    by auto
  then have "HasSuffix r ''@kubernetescrd''"
    unfolding HasSuffix_iff by blast
  with r show "isCrdReference r"
    by (simp add: isCrdReference_def middlewareSuffix_def)
qed

lemma isCrdReference_middlewareRef: "isCrdReference (middlewareRef m)"
  unfolding isCrdReference_iff middlewareRef_def middlewareSuffix_def by auto



text \<open>
  C9, as stated, fails: the static reference of the SSL redirect is \<open>ssl-redirect@file\<close>,
  which is not of the form \<open><namespace>-<name>@kubernetescrd\<close>, and it is the whole
  router-middlewares annotation of the resource below.
\<close>

theorem ssl_redirect_reference_not_crd:
  "\<not> isCrdReference ''ssl-redirect@file''
   \<and> convertIngress noMiddleware (ingressWith [(''ingress.kubernetes.io/ssl-redirect'', ''true'')] [])
     = ([], Inr (Some (ingressWith
                        [(''traefik.ingress.kubernetes.io/router.middlewares'', ''ssl-redirect@file''),
                         (''ingress.kubernetes.io/ssl-redirect'', ''true'')] []), []))"
  by (simp add: isCrdReference_def HasSuffix_def middlewareSuffix_def
      convertIngress_def collectAnnotations_def extractRuleType_def getStringValue_def
      setAnnotation_def sslMiddlewareRef_def
      ingressWith_def noMiddleware_def addOptional_def Let_def
      ruleTypePath_def ruleTypePathPrefix_def ruleTypePathStrip_def ruleTypePathPrefixStrip_def
      ruleTypeReplacePath_def)

text \<open>
  C9, amended. When \<open>convertIngress\<close> returns a resource, for a resource that passes
  the class gate, the router-middlewares annotation is the comma-joined list of the
  references, and each reference is either the static reference \<open>ssl-redirect@file\<close> or
  has the form \<open><namespace>-<name>@kubernetescrd\<close>, with the namespace and the name of
  one of the middlewares returned.
\<close>

theorem router_middlewares_references:
  assumes "\<not> routedElsewhere d ingress"
    and "convertIngress d ingress = (log, Inr (Some newIngress, objects))"
    and "referenceOrder d ingress \<noteq> []"
  shows "annotation (Annotations newIngress) ''traefik.ingress.kubernetes.io/router.middlewares''
       = Some (Join (referenceOrder d ingress) '','')
     \<and> (\<forall>r \<in> set (referenceOrder d ingress).
           r = ''ssl-redirect@file''
           \<or> (isCrdReference r
               \<and> (\<exists>m \<in> set objects. r = Namespace m @ ''-'' @ Name m @ ''@kubernetescrd'')))"
proof (intro conjI ballI)
  show "annotation (Annotations newIngress) ''traefik.ingress.kubernetes.io/router.middlewares''
      = Some (Join (referenceOrder d ingress) '','')"
    using assms by (rule convertIngress_returns(2))
next
  fix r
  assume r: "r \<in> set (referenceOrder d ingress)"
  have o: "set objects = set (synthesisOrder d ingress)"
    using convertIngress_returns(1)[OF assms(1,2)] by simp
  show "r = ''ssl-redirect@file''
      \<or> (isCrdReference r
          \<and> (\<exists>m \<in> set objects. r = Namespace m @ ''-'' @ Name m @ ''@kubernetescrd''))"
  proof (cases "r \<in> set (staticReferences d ingress)")
    case True
    then show ?thesis
      by (simp add: staticReferences_def sslMiddlewareRef_def split: if_splits)
  next
    case False
    with r obtain m where m: "m \<in> set (synthesisOrder d ingress)" and rm: "r = middlewareRef m"
      by (auto simp: referenceOrder_def)
    from rm have "isCrdReference r"
      by (simp add: isCrdReference_middlewareRef)
    moreover from m o rm
    have "\<exists>m \<in> set objects. r = Namespace m @ ''-'' @ Name m @ ''@kubernetescrd''"
      by (auto simp: middlewareRef_def middlewareSuffix_def)
    ultimately show ?thesis by simp
  qed
qed

text \<open>
  A resource with the SSL redirect, for which an auth middleware and a whitelist
  middleware are synthesized: three references, the first one static.
\<close>

theorem router_middlewares_references_witness:
  "\<not> routedElsewhere authAndWhiteList
        (ingressWith [(''ingress.kubernetes.io/ssl-redirect'', ''true'')] [])
   \<and> referenceOrder authAndWhiteList
        (ingressWith [(''ingress.kubernetes.io/ssl-redirect'', ''true'')] [])
       = [''ssl-redirect@file'', ''default-web-z-auth@kubernetescrd'',
          ''default-web-a-whitelist@kubernetescrd'']
   \<and> snd (convertIngress authAndWhiteList
             (ingressWith [(''ingress.kubernetes.io/ssl-redirect'', ''true'')] []))
       = Inr (Some (ingressWith
                      [(''traefik.ingress.kubernetes.io/router.middlewares'',
                        ''ssl-redirect@file,default-web-z-auth@kubernetescrd,default-web-a-whitelist@kubernetescrd''),
                       (''ingress.kubernetes.io/ssl-redirect'', ''true'')] []),
              [\<lparr>Name = ''web-a-whitelist'', Namespace = ''default'', Annotations = None, Spec = ()\<rparr>,
               \<lparr>Name = ''web-z-auth'', Namespace = ''default'', Annotations = None, Spec = ()\<rparr>])
   \<and> list_all (\<lambda>r. r = ''ssl-redirect@file'' \<or> isCrdReference r)
        [''ssl-redirect@file'', ''default-web-z-auth@kubernetescrd'',
         ''default-web-a-whitelist@kubernetescrd'']"
proof -
  let ?x = "ingressWith [(''ingress.kubernetes.io/ssl-redirect'', ''true'')] []"
  let ?new = "ingressWith
      [(''traefik.ingress.kubernetes.io/router.middlewares'',
        ''ssl-redirect@file,default-web-z-auth@kubernetescrd,default-web-a-whitelist@kubernetescrd''),
       (''ingress.kubernetes.io/ssl-redirect'', ''true'')] []"
  let ?objects = "[\<lparr>Name = ''web-a-whitelist'', Namespace = ''default'', Annotations = None, Spec = ()\<rparr>,
       \<lparr>Name = ''web-z-auth'', Namespace = ''default'', Annotations = None, Spec = ()\<rparr>]"
  have g: "\<not> routedElsewhere authAndWhiteList ?x"
    by (simp add: routedElsewhere_def annotation_def ingressWith_def authAndWhiteList_def
        noMiddleware_def)
  have ro: "referenceOrder authAndWhiteList ?x
      = [''ssl-redirect@file'', ''default-web-z-auth@kubernetescrd'',
         ''default-web-a-whitelist@kubernetescrd'']"
    by (simp add: referenceOrder_def staticReferences_def synthesisOrder_def
        synthesizedFromAnnotations_def optional_def middlewareRef_def middlewareSuffix_def
        sslMiddlewareRef_def getStringValue_def ingressWith_def authAndWhiteList_def
        noMiddleware_def)
  have c: "convertIngress authAndWhiteList ?x = ([], Inr (Some ?new, ?objects))"
    by (simp add: convertIngress_def collectAnnotations_def extractRuleType_def getStringValue_def
        setAnnotation_def sslMiddlewareRef_def middlewareRef_def middlewareSuffix_def
        addMiddleware_def ingressWith_def authAndWhiteList_def noMiddleware_def addOptional_def
        Let_def ruleTypePath_def ruleTypePathPrefix_def ruleTypePathStrip_def
        ruleTypePathPrefixStrip_def ruleTypeReplacePath_def)
  have n: "referenceOrder authAndWhiteList ?x \<noteq> []"
    by (simp add: ro)
  from router_middlewares_references[OF g c n] g c
  show ?thesis
    unfolding ro by (simp add: list_all_iff)
qed

lemma convertIngress_sorted:
  assumes "convertIngress d ingress = (log, Inr (result, objects))"
  shows "sorted (map Name objects)"
proof (cases "routedElsewhere d ingress")
  case True
  with assms convertIngress_gate[of d ingress] show ?thesis by simp
next
  case False
  with assms gate_iff[of ingress d] show ?thesis
    by (auto simp: convertIngress_def Let_def entryPoints_set sorted_sort_key
        split: prod.splits sum.splits loop.splits if_splits)
qed

text \<open>
  C3. Whenever \<open>convertIngress\<close> returns, the middlewares returned are sorted by name
  (the names compared as byte strings). When it returns a resource, for a resource that
  passes the class gate, the router-middlewares annotation joins the references in the
  order of synthesis (\<open>referenceOrder\<close>: the static reference of step 4, then the
  references of the middlewares in the order of steps 5 to 11), and the middlewares
  returned are the synthesized ones, in the order of their names. The order of the names
  has no part in the first and the order of synthesis none in the second.
\<close>

theorem reference_order_and_object_order:
  assumes "convertIngress d ingress = (log, Inr (result, objects))"
  shows "sorted (map Name objects)
     \<and> (\<not> routedElsewhere d ingress \<and> result = Some newIngress \<longrightarrow>
          mset objects = mset (synthesisOrder d ingress)
          \<and> (referenceOrder d ingress \<noteq> [] \<longrightarrow>
                annotation (Annotations newIngress)
                  ''traefik.ingress.kubernetes.io/router.middlewares''
                  = Some (Join (referenceOrder d ingress) '','')))"
proof (intro conjI impI)
  show "sorted (map Name objects)"
    using assms by (rule convertIngress_sorted)
next
  assume a: "\<not> routedElsewhere d ingress \<and> result = Some newIngress"
  with assms have c: "convertIngress d ingress = (log, Inr (Some newIngress, objects))"
    by simp
  from a c have "objects = sort_key Name (synthesisOrder d ingress)"
    by (intro convertIngress_returns(1)) simp_all
  then show "mset objects = mset (synthesisOrder d ingress)"
    by simp
  assume "referenceOrder d ingress \<noteq> []"
  with a c
  show "annotation (Annotations newIngress) ''traefik.ingress.kubernetes.io/router.middlewares''
      = Some (Join (referenceOrder d ingress) '','')"
    by (intro convertIngress_returns(2)) simp_all
qed

text \<open>
  The auth middleware \<open>web-z-auth\<close> is synthesized before the whitelist middleware
  \<open>web-a-whitelist\<close>: its reference comes first in the annotation, and it comes last in
  the list of the middlewares.
\<close>

theorem reference_order_and_object_order_witness:
  "\<not> routedElsewhere authAndWhiteList (ingressWith [] [ruleWith ''a.com'' [''/api'']])
   \<and> synthesisOrder authAndWhiteList (ingressWith [] [ruleWith ''a.com'' [''/api'']])
       = [\<lparr>Name = ''web-z-auth'', Namespace = ''default'', Annotations = None, Spec = ()\<rparr>,
          \<lparr>Name = ''web-a-whitelist'', Namespace = ''default'', Annotations = None, Spec = ()\<rparr>]
   \<and> convertIngress authAndWhiteList (ingressWith [] [ruleWith ''a.com'' [''/api'']])
       = ([], Inr (Some (ingressWith
                      [(''traefik.ingress.kubernetes.io/router.middlewares'',
                        ''default-web-z-auth@kubernetescrd,default-web-a-whitelist@kubernetescrd'')]
                      [ruleWith ''a.com'' [''/api'']]),
              [\<lparr>Name = ''web-a-whitelist'', Namespace = ''default'', Annotations = None, Spec = ()\<rparr>,
               \<lparr>Name = ''web-z-auth'', Namespace = ''default'', Annotations = None, Spec = ()\<rparr>]))
   \<and> sorted [''web-a-whitelist'', ''web-z-auth'']"
proof -
  let ?x = "ingressWith [] [ruleWith ''a.com'' [''/api'']]"
  let ?new = "ingressWith
      [(''traefik.ingress.kubernetes.io/router.middlewares'',
        ''default-web-z-auth@kubernetescrd,default-web-a-whitelist@kubernetescrd'')]
      [ruleWith ''a.com'' [''/api'']]"
  let ?objects = "[\<lparr>Name = ''web-a-whitelist'', Namespace = ''default'', Annotations = None, Spec = ()\<rparr>,
       \<lparr>Name = ''web-z-auth'', Namespace = ''default'', Annotations = None, Spec = ()\<rparr>]"
  have g: "\<not> routedElsewhere authAndWhiteList ?x"
    by (simp add: routedElsewhere_def annotation_def ingressWith_def authAndWhiteList_def
        noMiddleware_def)
  have so: "synthesisOrder authAndWhiteList ?x
       = [\<lparr>Name = ''web-z-auth'', Namespace = ''default'', Annotations = None, Spec = ()\<rparr>,
          \<lparr>Name = ''web-a-whitelist'', Namespace = ''default'', Annotations = None, Spec = ()\<rparr>]"
    by (simp add: synthesisOrder_def synthesizedFromAnnotations_def synthesizedFromRule_def
        synthesizedFromPath_def impliedStrip_def optional_def getStringValue_def ingressWith_def
        ruleWith_def authAndWhiteList_def noMiddleware_def ruleTypePathPrefix_def
        ruleTypePathStrip_def ruleTypePathPrefixStrip_def)
  have c: "convertIngress authAndWhiteList ?x = ([], Inr (Some ?new, ?objects))"
    by (simp add: convertIngress_def collectAnnotations_def extractRuleType_def getStringValue_def
        setAnnotation_def sslMiddlewareRef_def middlewareRef_def middlewareSuffix_def
        addMiddleware_def ingressWith_def ruleWith_def authAndWhiteList_def noMiddleware_def
        addOptional_def Let_def ruleTypePath_def ruleTypePathPrefix_def ruleTypePathStrip_def
        ruleTypePathPrefixStrip_def ruleTypeReplacePath_def)
  from reference_order_and_object_order[OF c, of ?new] g c so
  show ?thesis
    by (simp add: ingressWith_def)
qed

subsection \<open>The list extractor\<close>

lemma isMap_Map: "isMap (Map obj)"
  by (simp add: isMap_def)

lemma isMap_cases: "isMap elt \<Longrightarrow> \<exists>obj. elt = Map obj"
  by (cases elt) (simp_all add: isMap_def)

lemma isToConvert_Map: "isToConvert (Map obj) = isIngress obj"
  by (simp add: isToConvert_def)

lemma extractItemsLoop_maps:
  "list_all isMap items \<Longrightarrow>
     \<exists>converted. extractItemsLoop items toKeep toConvert
         = Inr (toKeep @ filter (\<lambda>elt. \<not> isToConvert elt) items, toConvert @ converted)
       \<and> map Map converted = filter isToConvert items"
proof (induction items arbitrary: toKeep toConvert)
  case Nil
  then show ?case by simp
next
  case (Cons elt items)
  then obtain obj where elt: "elt = Map obj"
    using isMap_cases[of elt] by auto
  from Cons.prems have rest: "list_all isMap items" by simp
  show ?case
  proof (cases "isIngress obj")
    case True
    from Cons.IH[OF rest, of toKeep "toConvert @ [obj]"]
    obtain converted where
      "extractItemsLoop items toKeep (toConvert @ [obj])
         = Inr (toKeep @ filter (\<lambda>elt. \<not> isToConvert elt) items, (toConvert @ [obj]) @ converted)"
      and "map Map converted = filter isToConvert items"
      by blast
    with True elt show ?thesis
      by (intro exI[of _ "obj # converted"]) (simp add: isToConvert_Map)
  next
    case False
    from Cons.IH[OF rest, of "toKeep @ [elt]" toConvert]
    obtain converted where
      "extractItemsLoop items (toKeep @ [elt]) toConvert
         = Inr ((toKeep @ [elt]) @ filter (\<lambda>elt. \<not> isToConvert elt) items, toConvert @ converted)"
      and "map Map converted = filter isToConvert items"
      by blast
    with False elt show ?thesis
      by (intro exI[of _ converted]) (simp add: isToConvert_Map)
  qed
qed

lemma extractItemsLoop_panics:
  "\<not> list_all isMap items \<Longrightarrow> extractItemsLoop items toKeep toConvert = Inl InterfaceConversion"
proof (induction items arbitrary: toKeep toConvert)
  case Nil
  then show ?case by simp
next
  case (Cons elt items)
  show ?case
  proof (cases elt)
    case (Map obj)
    with Cons.prems have "\<not> list_all isMap items" by (simp add: isMap_Map)
    with Cons.IH Map show ?thesis by simp
  qed simp_all
qed

lemma extractItems_lengths:
  assumes "extractItems items = Inr (toKeep, toConvert)"
  shows "length toKeep + length toConvert = length items"
proof -
  have m: "list_all isMap items"
    using assms extractItemsLoop_panics[of items "[]" "[]"]
    by (auto simp: extractItems_def)
  from extractItemsLoop_maps[OF m, of "[]" "[]"] assms
  have k: "toKeep = filter (\<lambda>elt. \<not> isToConvert elt) items"
    and c: "map Map toConvert = filter isToConvert items"
    by (auto simp: extractItems_def)
  from c have "length toConvert = length (filter isToConvert items)"
    by (metis length_map)
  with k sum_length_filter_compl[of isToConvert items] show ?thesis
    by simp
qed

text \<open>
  When the whole file decodes to a list with an item to convert, what a pass of the loop
  of \<open>expandFileContent\<close> emits does not depend on the part it is at.
\<close>

lemma expandPart_ignores_part:
  assumes "createUnstructured l content = Inr listObj"
    and "IsList listObj"
    and "NestedSlice listObj ''items'' = Inr (items, found)"
    and "extractItems items = Inr (toKeep, toConvert)"
    and "toConvert \<noteq> []"
  shows "expandPart l content part fragments = expandPart l content part' fragments"
proof -
  from extractItems_lengths[OF assms(4)] assms(5) have "length items \<noteq> length toKeep"
    by (cases toConvert) simp_all
  with assms(1-4) show ?thesis
    by (simp add: expandPart_def)
qed

text \<open>
  When the whole file decodes to a list with no item to convert, the part is emitted as
  it is.
\<close>

lemma expandPart_nothing_to_convert:
  assumes "createUnstructured l content = Inr listObj"
    and "IsList listObj"
    and "NestedSlice listObj ''items'' = Inr (items, found)"
    and "extractItems items = Inr (toKeep, [])"
  shows "expandPart l content part fragments = Inr (fragments @ [part])"
proof -
  from extractItems_lengths[OF assms(4)] have "length items = length toKeep"
    by simp
  with assms show ?thesis
    by (simp add: expandPart_def)
qed

text \<open>
  C10. When every element of the items is a map, \<open>extractItems\<close> returns: the elements
  to keep are the items that are not an ingress, in their order, the elements to convert
  are the items that are, in their order, and the two lengths add up to the number of
  items. When some element is not a map, \<open>extractItems\<close> panics (the type assertion has
  no second result).
\<close>

theorem extractItems_total_on_maps:
  "(list_all isMap items \<longrightarrow>
      (\<exists>toKeep toConvert.
         extractItems items = Inr (toKeep, toConvert)
         \<and> toKeep = filter (\<lambda>elt. \<not> isToConvert elt) items
         \<and> map Map toConvert = filter isToConvert items
         \<and> length toKeep + length toConvert = length items))
   \<and> (\<not> list_all isMap items \<longrightarrow> extractItems items = Inl InterfaceConversion)"
proof (intro conjI impI)
  assume "list_all isMap items"
  from extractItemsLoop_maps[OF this, of "[]" "[]"]
  obtain toConvert where e: "extractItems items = Inr (filter (\<lambda>elt. \<not> isToConvert elt) items, toConvert)"
    and c: "map Map toConvert = filter isToConvert items"
    by (auto simp: extractItems_def)
  from c have "length toConvert = length (filter isToConvert items)"
    by (metis length_map)
  then have "length (filter (\<lambda>elt. \<not> isToConvert elt) items) + length toConvert = length items"
    using sum_length_filter_compl[of isToConvert items] by simp
  with e c
  show "\<exists>toKeep toConvert.
      extractItems items = Inr (toKeep, toConvert)
      \<and> toKeep = filter (\<lambda>elt. \<not> isToConvert elt) items
      \<and> map Map toConvert = filter isToConvert items
      \<and> length toKeep + length toConvert = length items"
    by blast
next
  assume "\<not> list_all isMap items"
  then show "extractItems items = Inl InterfaceConversion"
    unfolding extractItems_def by (rule extractItemsLoop_panics)
qed

text \<open>
  The items config map, ingress, config map are parted in two and one; with a string
  between them, \<open>extractItems\<close> panics.
\<close>

theorem extractItems_total_on_maps_witness:
  "list_all isMap [Map configMapItem, Map ingressItem, Map configMapItem]
   \<and> extractItems [Map configMapItem, Map ingressItem, Map configMapItem]
       = Inr ([Map configMapItem, Map configMapItem], [ingressItem])
   \<and> \<not> list_all isMap [Map configMapItem, String ''web'', Map ingressItem]
   \<and> extractItems [Map configMapItem, String ''web'', Map ingressItem] = Inl InterfaceConversion"
proof -
  have a: "list_all isMap [Map configMapItem, Map ingressItem, Map configMapItem]"
    by (simp add: isMap_def)
  have b: "\<not> list_all isMap [Map configMapItem, String ''web'', Map ingressItem]"
    by (simp add: isMap_def)
  have i: "isIngress ingressItem" and c: "\<not> isIngress configMapItem"
    by (simp_all add: isIngress_def GetAPIVersion_def GetKind_def getNestedString_def
        ingressItem_def configMapItem_def)
  from extractItems_total_on_maps[of "[Map configMapItem, Map ingressItem, Map configMapItem]"]
    extractItems_total_on_maps[of "[Map configMapItem, String ''web'', Map ingressItem]"]
    a b
  show ?thesis
    by (auto simp: isToConvert_def i c)
qed

text \<open>
  C2. The partition holds for \<open>extractItems\<close>, and a part is emitted as it is when
  the decoded list has nothing to convert. But the claim fails on a file of two
  documents: \<open>expandFileContent\<close> decodes the whole file in each pass of its loop, not
  the part at hand (\<open>convertFile\<close> decodes the part), and the decoder gives the first
  document of what it is given. In the file below the second part is a list that holds a
  config map only: a List-kind fragment with nothing to convert. It is not emitted; the
  ingress of the first document is, twice.
\<close>

theorem expandFileContent_decodes_whole_file:
  "Split twoListsFile separator = [ingressListDocument, newline @ configMapListDocument]
   \<and> createUnstructured twoListsLib (newline @ configMapListDocument)
       = Inr (listOf [Map configMapItem])
   \<and> IsList (listOf [Map configMapItem])
   \<and> extractItems [Map configMapItem] = Inr ([Map configMapItem], [])
   \<and> expandFileContent twoListsLib ''in/lists.yml''
       = Inr (ingressEncoding @ separator @ newline @ ingressEncoding)"
  by code_simp

subsection \<open>The conversion of a file\<close>

text \<open>The loops of \<open>convertFile\<close> only append to the fragments and to the log.\<close>

lemma encodeObjects_extends:
  "encodeObjects l objects fragments = Inr fragments' \<Longrightarrow> \<exists>rest. fragments' = fragments @ rest"
proof (induction objects arbitrary: fragments)
  case Nil
  then show ?case by simp
next
  case (Cons object objects)
  then show ?case
    by (fastforce split: sum.splits)
qed

lemma convertAndEncode_extends:
  assumes "convertAndEncode l d ingress fragments = (log, Inr fragments')"
  shows "\<exists>rest. fragments' = fragments @ rest"
proof -
  from assms obtain yml objects where "encodeObjects l objects (fragments @ [yml]) = Inr fragments'"
    by (auto simp: convertAndEncode_def split: prod.splits sum.splits)
  from encodeObjects_extends[OF this] show ?thesis by auto
qed

lemma convertPart_extends:
  assumes "convertPart l d part fragments = (log, Inr fragments')"
  shows "\<exists>rest. fragments' = fragments @ rest"
  using assms
  by (auto simp: convertPart_def split: sum.splits if_splits Object.splits
      dest: convertAndEncode_extends)

lemma convertParts_extends:
  "convertParts l d parts fragments log = (log', r) \<Longrightarrow>
     (\<exists>rest. log' = log @ rest) \<and> (\<forall>fragments'. r = Inr fragments' \<longrightarrow> (\<exists>rest. fragments' = fragments @ rest))"
proof (induction parts arbitrary: fragments log)
  case Nil
  then show ?case by auto
next
  case (Cons part parts)
  show ?case
  proof (cases "part = newline \<or> part = []")
    case True
    with Cons.prems have "convertParts l d parts fragments log = (log', r)" by simp
    then show ?thesis by (rule Cons.IH)
  next
    case False
    obtain lg p where p: "convertPart l d part fragments = (lg, p)"
      by (cases "convertPart l d part fragments")
    show ?thesis
    proof (cases p)
      case (Inl f)
      with Cons.prems False p show ?thesis by auto
    next
      case (Inr fragments1)
      with Cons.prems False p
      have "convertParts l d parts fragments1 (log @ lg) = (log', r)" by simp
      from Cons.IH[OF this] convertPart_extends[OF p[unfolded Inr]]
      show ?thesis by auto
    qed
  qed
qed

lemma convertParts_append:
  "convertParts l d (ps @ qs) fragments log =
     (case convertParts l d ps fragments log of
        (log', Inl f) \<Rightarrow> (log', Inl f)
      | (log', Inr fragments') \<Rightarrow> convertParts l d qs fragments' log')"
proof (induction ps arbitrary: fragments log)
  case Nil
  then show ?case by simp
next
  case (Cons part ps)
  show ?case
  proof (cases "part = newline \<or> part = []")
    case True
    then show ?thesis by (simp add: Cons.IH)
  next
    case False
    obtain lg p where p: "convertPart l d part fragments = (lg, p)"
      by (cases "convertPart l d part fragments")
    show ?thesis
    proof (cases p)
      case (Inl f)
      with False p show ?thesis by simp
    next
      case (Inr fragments1)
      with False p show ?thesis by (simp add: Cons.IH)
    qed
  qed
qed

text \<open>\<open>convertFile\<close> after the loop: the error of the loop, or the file written.\<close>

lemma convertFile_after_loop:
  assumes "expandFileContent l (filepathJoin l srcDir filename) = Inr content"
    and "MkdirAll l dstDir = None"
    and "convertParts l d (Split content separator) [] [] = (log, r)"
  shows "convertFile l d srcDir dstDir filename =
     (case r of
        Inl f \<Rightarrow> (log, Inl f)
      | Inr fragments \<Rightarrow>
          (case WriteFile l (filepathJoin l dstDir filename) (Join fragments (separator @ newline)) of
             Some err \<Rightarrow> (log, Inl (Error err))
           | None \<Rightarrow>
               (log, Inr (filepathJoin l dstDir filename, Join fragments (separator @ newline)))))"
  using assms by (simp add: convertFile_def Let_def split: sum.splits)

text \<open>
  The \<open>nil\<close> resource that \<open>convertIngress\<close> returns goes to \<open>encodeYaml\<close>
  (\<open>DeepCopyObject\<close> of \<open>nil\<close> is the \<open>nil\<close> object): when the encoder refuses it, the
  loop of \<open>convertFile\<close> ends with the error of the encoder.
\<close>

lemma convertParts_nil_resource:
  assumes "part \<noteq> newline" and "part \<noteq> []"
    and "createUnstructured l part = Inr unstruct"
    and "\<not> IsList unstruct"
    and "parseYaml l part = Inr (NetworkingIngress ingress)"
    and "convertIngress d ingress = (log', Inr (None, []))"
    and "encodeYaml l None (networkingGroup l @ ''/'' @ networkingVersion l) = Inl err"
  shows "convertParts l d (part # parts) fragments log = (log @ log', Inl (Error err))"
  using assms by (simp add: convertPart_def convertAndEncode_def)

text \<open>
  C7, as stated, fails: \<open>convertFile\<close> decodes each part twice, and the failure of the
  first decoding (\<open>createUnstructured\<close>) is returned as the error of the file. The
  second document of the file below is malformed: no schema decodes it, nothing is kept,
  nothing is written, and \<open>convertFile\<close> returns the error.
\<close>

theorem convertFile_malformed_document:
  "parseYaml malformedLib (newline @ newline @ ''b: ['')
     = Inl (ErrorWhileDecodingYAMLObject (LibraryError ''no kind is registered for the document''))
   \<and> convertFile malformedLib noMiddleware ''in'' ''out'' ''two.yml''
     = ([LogErrWhileReadingYaml
           (ErrorWhileDecodingYAMLObject (LibraryError ''no kind is registered for the document''))],
        Inl (Error (ErrorDecodingYAML (LibraryError ''yaml: malformed document'')
                      (newline @ newline @ ''b: [''))))"
proof -
  have e: "expandFileContent malformedLib ''in/two.yml''
      = Inr (''a: 1'' @ newline @ separator @ newline @ newline @ ''b: ['')"
    by (simp add: expandFileContent_def expandPart_def createUnstructured_def IsList_def
        Split.simps malformedLib_def tableLib_def malformedFile_def separator_def newline_def)
  have p: "parseYaml malformedLib (newline @ newline @ ''b: ['')
      = Inl (ErrorWhileDecodingYAMLObject (LibraryError ''no kind is registered for the document''))"
    by (simp add: parseYaml_def malformedLib_def tableLib_def)
  have j: "filepathJoin malformedLib ''in'' ''two.yml'' = ''in/two.yml''"
    by (simp add: malformedLib_def tableLib_def)
  have c: "convertFile malformedLib noMiddleware ''in'' ''out'' ''two.yml''
      = ([LogErrWhileReadingYaml
            (ErrorWhileDecodingYAMLObject (LibraryError ''no kind is registered for the document''))],
         Inl (Error (ErrorDecodingYAML (LibraryError ''yaml: malformed document'')
                       (newline @ newline @ ''b: [''))))"
    unfolding convertFile_def j e
    by (simp add: convertPart_def createUnstructured_def parseYaml_def IsList_def
        Split.simps malformedLib_def tableLib_def malformedFile_def separator_def newline_def)
  from p c show ?thesis by simp
qed

text \<open>
  C7, amended. \<open>convertFile\<close> runs its loop over the fragments of the content that
  \<open>expandFileContent\<close> returns. For a fragment that the loop comes to (the fragments
  before it end in no error): when the YAML decoder decodes it
  (\<open>createUnstructured\<close> succeeds), it is not a list, and the known schemas fail to decode
  it (\<open>parseYaml\<close> fails), the fragment is kept as it is, the failure is logged, and the
  loop goes on with the fragments after it; when these end in no error and the file is
  written, \<open>convertFile\<close> returns no error, and whenever \<open>convertFile\<close> returns no
  error the fragment is in the content written and the line is in the log. When the YAML
  decoder fails on the fragment, \<open>convertFile\<close> returns that error and writes nothing.
\<close>

theorem convertFile_keeps_undecodable_fragment:
  assumes "expandFileContent l (filepathJoin l srcDir filename) = Inr content"
    and "MkdirAll l dstDir = None"
    and "Split content separator = before @ part # after"
    and "convertParts l d before [] [] = (log0, Inr fragments0)"
    and "part \<noteq> newline" and "part \<noteq> []"
  shows "(createUnstructured l part = Inr unstruct \<and> \<not> IsList unstruct
            \<and> parseYaml l part = Inl err \<longrightarrow>
          convertParts l d (Split content separator) [] []
            = convertParts l d after (fragments0 @ [part]) (log0 @ [LogErrWhileReadingYaml err])
          \<and> (convertParts l d after (fragments0 @ [part]) (log0 @ [LogErrWhileReadingYaml err])
                = (log', Inr fragments')
              \<and> WriteFile l (filepathJoin l dstDir filename) (Join fragments' (separator @ newline))
                  = None \<longrightarrow>
                convertFile l d srcDir dstDir filename
                  = (log', Inr (filepathJoin l dstDir filename,
                               Join fragments' (separator @ newline))))
          \<and> (convertFile l d srcDir dstDir filename = (log'', Inr (path, out)) \<longrightarrow>
                (\<exists>rest. out = Join (fragments0 @ part # rest) (separator @ newline))
                \<and> (\<exists>rest. log'' = log0 @ LogErrWhileReadingYaml err # rest)))
     \<and> (createUnstructured l part = Inl err' \<longrightarrow>
          convertFile l d srcDir dstDir filename = (log0, Inl (Error err')))"
proof (intro conjI impI)
  assume a: "createUnstructured l part = Inr unstruct \<and> \<not> IsList unstruct
    \<and> parseYaml l part = Inl err"
  then have p: "convertPart l d part fragments0
      = ([LogErrWhileReadingYaml err], Inr (fragments0 @ [part]))"
    by (simp add: convertPart_def)
  show s: "convertParts l d (Split content separator) [] []
      = convertParts l d after (fragments0 @ [part]) (log0 @ [LogErrWhileReadingYaml err])"
    unfolding assms(3) convertParts_append assms(4)
    using assms(5,6) p by simp
  {
    assume "convertParts l d after (fragments0 @ [part]) (log0 @ [LogErrWhileReadingYaml err])
        = (log', Inr fragments')
      \<and> WriteFile l (filepathJoin l dstDir filename) (Join fragments' (separator @ newline)) = None"
    with convertFile_after_loop[OF assms(1,2), of d log' "Inr fragments'"] s
    show "convertFile l d srcDir dstDir filename
        = (log', Inr (filepathJoin l dstDir filename, Join fragments' (separator @ newline)))"
      by simp
  }
  assume w: "convertFile l d srcDir dstDir filename = (log'', Inr (path, out))"
  obtain lg r where c: "convertParts l d (Split content separator) [] [] = (lg, r)"
    by (cases "convertParts l d (Split content separator) [] []")
  from convertFile_after_loop[OF assms(1,2) c] w
  obtain fragments where r: "r = Inr fragments" and lg: "lg = log''"
    and out: "out = Join fragments (separator @ newline)"
    by (cases r) (auto split: option.splits)
  from convertParts_extends[OF c[unfolded s]] r lg
  obtain rest lrest where "fragments = (fragments0 @ [part]) @ rest"
    and "log'' = (log0 @ [LogErrWhileReadingYaml err]) @ lrest"
    by auto
  with out show "\<exists>rest. out = Join (fragments0 @ part # rest) (separator @ newline)"
    and "\<exists>rest. log'' = log0 @ LogErrWhileReadingYaml err # rest"
    by auto
next
  assume "createUnstructured l part = Inl err'"
  then have p: "convertPart l d part fragments0 = ([], Inl (Error err'))"
    by (simp add: convertPart_def)
  have "convertParts l d (Split content separator) [] [] = (log0, Inl (Error err'))"
    unfolding assms(3) convertParts_append assms(4)
    using assms(5,6) p by simp
  from convertFile_after_loop[OF assms(1,2) this]
  show "convertFile l d srcDir dstDir filename = (log0, Inl (Error err'))"
    by simp
qed

text \<open>
  The second fragment of a file of two documents that name no kind: both are kept, both
  failures are logged, and the file is written. And the second fragment of the file
  whose second document is malformed: \<open>convertFile\<close> returns the error of the decoder.
\<close>

theorem convertFile_keeps_undecodable_fragment_witness:
  "expandFileContent plainLib (filepathJoin plainLib ''in'' ''plain.yml'')
     = Inr (''a: 1'' @ newline @ separator @ newline @ newline @ ''b: 2'' @ newline)
   \<and> Split (''a: 1'' @ newline @ separator @ newline @ newline @ ''b: 2'' @ newline) separator
     = [''a: 1'' @ newline] @ (newline @ newline @ ''b: 2'' @ newline) # []
   \<and> convertParts plainLib noMiddleware [''a: 1'' @ newline] [] []
     = ([LogErrWhileReadingYaml
           (ErrorWhileDecodingYAMLObject (LibraryError ''no kind is registered for the document''))],
        Inr [''a: 1'' @ newline])
   \<and> createUnstructured plainLib (newline @ newline @ ''b: 2'' @ newline) = Inr [(''b'', Number 2)]
   \<and> \<not> IsList [(''b'', Number 2)]
   \<and> parseYaml plainLib (newline @ newline @ ''b: 2'' @ newline)
     = Inl (ErrorWhileDecodingYAMLObject (LibraryError ''no kind is registered for the document''))
   \<and> convertFile plainLib noMiddleware ''in'' ''out'' ''plain.yml''
     = ([LogErrWhileReadingYaml
           (ErrorWhileDecodingYAMLObject (LibraryError ''no kind is registered for the document'')),
         LogErrWhileReadingYaml
           (ErrorWhileDecodingYAMLObject (LibraryError ''no kind is registered for the document''))],
        Inr (''out/plain.yml'',
             Join [''a: 1'' @ newline, newline @ newline @ ''b: 2'' @ newline] (separator @ newline)))
   \<and> createUnstructured malformedLib (newline @ newline @ ''b: ['')
     = Inl (ErrorDecodingYAML (LibraryError ''yaml: malformed document'')
              (newline @ newline @ ''b: [''))
   \<and> convertFile malformedLib noMiddleware ''in'' ''out'' ''two.yml''
     = ([LogErrWhileReadingYaml
           (ErrorWhileDecodingYAMLObject (LibraryError ''no kind is registered for the document''))],
        Inl (Error (ErrorDecodingYAML (LibraryError ''yaml: malformed document'')
                      (newline @ newline @ ''b: [''))))"
proof -
  let ?e = "ErrorWhileDecodingYAMLObject (LibraryError ''no kind is registered for the document'')"
  let ?c = "''a: 1'' @ newline @ separator @ newline @ newline @ ''b: 2'' @ newline"
  let ?p = "newline @ newline @ ''b: 2'' @ newline"
  let ?c' = "''a: 1'' @ newline @ separator @ newline @ newline @ ''b: [''"
  let ?p' = "newline @ newline @ ''b: [''"
  have e: "expandFileContent plainLib (filepathJoin plainLib ''in'' ''plain.yml'') = Inr ?c"
    by (simp add: expandFileContent_def expandPart_def createUnstructured_def IsList_def
        Split.simps plainLib_def tableLib_def plainFile_def separator_def newline_def)
  have m: "MkdirAll plainLib ''out'' = None"
    by (simp add: plainLib_def tableLib_def)
  have s: "Split ?c separator = [''a: 1'' @ newline] @ ?p # []"
    by (simp add: Split.simps separator_def newline_def)
  have b: "convertParts plainLib noMiddleware [''a: 1'' @ newline] [] []
      = ([LogErrWhileReadingYaml ?e], Inr [''a: 1'' @ newline])"
    by (simp add: convertPart_def createUnstructured_def parseYaml_def IsList_def
        plainLib_def tableLib_def plainFile_def separator_def newline_def)
  have n: "?p \<noteq> newline" "?p \<noteq> []"
    by (simp_all add: newline_def)
  have u: "createUnstructured plainLib ?p = Inr [(''b'', Number 2)]"
    by (simp add: createUnstructured_def plainLib_def tableLib_def plainFile_def separator_def
        newline_def)
  have i: "\<not> IsList [(''b'', Number 2)]"
    by (simp add: IsList_def)
  have y: "parseYaml plainLib ?p = Inl ?e"
    by (simp add: parseYaml_def plainLib_def tableLib_def)
  have w: "WriteFile plainLib path out = None" for path out
    by (simp add: plainLib_def tableLib_def)
  have j: "filepathJoin plainLib ''out'' ''plain.yml'' = ''out/plain.yml''"
    by (simp add: plainLib_def tableLib_def)
  note t = convertFile_keeps_undecodable_fragment[OF e m s b n,
      of "[(''b'', Number 2)]" ?e
         "[LogErrWhileReadingYaml ?e, LogErrWhileReadingYaml ?e]"
         "[''a: 1'' @ newline, ?p]"]
  from t[THEN conjunct1] u i y
  have "convertFile plainLib noMiddleware ''in'' ''out'' ''plain.yml''
      = ([LogErrWhileReadingYaml ?e, LogErrWhileReadingYaml ?e],
         Inr (filepathJoin plainLib ''out'' ''plain.yml'',
              Join [''a: 1'' @ newline, ?p] (separator @ newline)))"
    by (simp add: w)
  then have f: "convertFile plainLib noMiddleware ''in'' ''out'' ''plain.yml''
      = ([LogErrWhileReadingYaml ?e, LogErrWhileReadingYaml ?e],
         Inr (''out/plain.yml'', Join [''a: 1'' @ newline, ?p] (separator @ newline)))"
    unfolding j .
  have e': "expandFileContent malformedLib (filepathJoin malformedLib ''in'' ''two.yml'') = Inr ?c'"
    by (simp add: expandFileContent_def expandPart_def createUnstructured_def IsList_def
        Split.simps malformedLib_def tableLib_def malformedFile_def separator_def newline_def)
  have m': "MkdirAll malformedLib ''out'' = None"
    by (simp add: malformedLib_def tableLib_def)
  have s': "Split ?c' separator = [''a: 1'' @ newline] @ ?p' # []"
    by (simp add: Split.simps separator_def newline_def)
  have b': "convertParts malformedLib noMiddleware [''a: 1'' @ newline] [] []
      = ([LogErrWhileReadingYaml ?e], Inr [''a: 1'' @ newline])"
    by (simp add: convertPart_def createUnstructured_def parseYaml_def IsList_def
        malformedLib_def tableLib_def malformedFile_def separator_def newline_def)
  have n': "?p' \<noteq> newline" "?p' \<noteq> []"
    by (simp_all add: newline_def)
  have u': "createUnstructured malformedLib ?p'
      = Inl (ErrorDecodingYAML (LibraryError ''yaml: malformed document'') ?p')"
    by (simp add: createUnstructured_def malformedLib_def tableLib_def malformedFile_def
        separator_def newline_def)
  from convertFile_keeps_undecodable_fragment[OF e' m' s' b' n', THEN conjunct2] u'
  have f': "convertFile malformedLib noMiddleware ''in'' ''out'' ''two.yml''
      = ([LogErrWhileReadingYaml ?e],
         Inl (Error (ErrorDecodingYAML (LibraryError ''yaml: malformed document'') ?p')))"
    by (rule mp)
  from e s b u i y f u' f' show ?thesis
    by (intro conjI)
qed

end
